theory Spec2Isabelle
  imports Main "HOL-Library.AList"
begin

section \<open>JavaScript values and string helpers\<close>

text \<open>
  The engine is the class \<open>RTMPStreamManager\<close> of the standalone server. Its methods are
  translated one by one. JavaScript values that the code tests for truthiness or passes to
  the database driver are kept as a small value type.
\<close>

datatype jsval = JUndefined | JNull | JBool bool | JNum int | JStr string | JDate nat

fun truthy :: "jsval \<Rightarrow> bool" where
  "truthy JUndefined = False"
| "truthy JNull = False"
| "truthy (JBool b) = b"
| "truthy (JNum n) = (n \<noteq> 0)"
| "truthy (JStr s) = (s \<noteq> [])"
| "truthy (JDate t) = True"

text \<open>\<open>a || b\<close>\<close>

definition js_or :: "jsval \<Rightarrow> jsval \<Rightarrow> jsval" where
  "js_or a b = (if truthy a then a else b)"

text \<open>Truthiness of a possibly missing string (\<open>null\<close>, \<open>undefined\<close> and \<open>''\<close> are falsy).\<close>

fun truthy_str :: "string option \<Rightarrow> bool" where
  "truthy_str None = False"
| "truthy_str (Some s) = (s \<noteq> [])"

text \<open>Truthiness of a possibly missing number (\<open>0\<close> is falsy).\<close>

fun truthy_num :: "int option \<Rightarrow> bool" where
  "truthy_num None = False"
| "truthy_num (Some n) = (n \<noteq> 0)"

text \<open>\<open>String(n)\<close> for an integer: decimal digits, a leading minus for negatives.\<close>

definition digit_char :: "nat \<Rightarrow> char" where
  "digit_char d = ''0123456789'' ! (d mod 10)"

fun string_of_nat :: "nat \<Rightarrow> string" where
  "string_of_nat n =
     (if n < 10 then [digit_char n] else string_of_nat (n div 10) @ [digit_char (n mod 10)])"

declare string_of_nat.simps [simp del]

definition string_of_int :: "int \<Rightarrow> string" where
  "string_of_int i = (if i < 0 then CHR ''-'' # string_of_nat (nat (- i)) else string_of_nat (nat i))"

text \<open>\<open>s.padStart(2, '0')\<close>\<close>

definition padStart2 :: "string \<Rightarrow> string" where
  "padStart2 s = replicate (2 - length s) CHR ''0'' @ s"

text \<open>
  \<open>s.toLowerCase()\<close> on ASCII letters; strings are byte strings here, so letters outside
  ASCII are left as they are.
\<close>

definition toLowerChar :: "char \<Rightarrow> char" where
  "toLowerChar c =
     (case map_of (zip ''ABCDEFGHIJKLMNOPQRSTUVWXYZ'' ''abcdefghijklmnopqrstuvwxyz'') c of
        Some l \<Rightarrow> l
      | None \<Rightarrow> c)"

definition toLowerCase :: "string \<Rightarrow> string" where
  "toLowerCase s = map toLowerChar s"

text \<open>JavaScript's \<open>%\<close> on integers: the remainder takes the sign of the dividend.\<close>

definition js_rem :: "int \<Rightarrow> int \<Rightarrow> int" where
  "js_rem a b = (if a < 0 then - ((- a) mod \<bar>b\<bar>) else a mod \<bar>b\<bar>)"

text \<open>\<open>arr.findIndex(p)\<close>: the first index whose element satisfies \<open>p\<close>, or \<open>-1\<close>.\<close>

fun findIndex :: "('a \<Rightarrow> bool) \<Rightarrow> 'a list \<Rightarrow> int" where
  "findIndex p [] = - 1"
| "findIndex p (x # xs) =
     (if p x then 0 else (let i = findIndex p xs in if i < 0 then - 1 else i + 1))"

text \<open>\<open>arr[i]\<close>: \<open>undefined\<close> outside the array.\<close>

definition js_index :: "'a list \<Rightarrow> int \<Rightarrow> 'a option" where
  "js_index xs i = (if 0 \<le> i \<and> i < int (length xs) then Some (xs ! nat i) else None)"

section \<open>Stream profile and transcoder arguments\<close>

text \<open>The \<open>config\<close> object handed to \<open>startStream\<close>; a missing field is \<open>None\<close>.\<close>

record stream_config =
  platform :: "string option"
  streamKey :: string
  rtmpUrl :: "string option"
  resolution :: "string option"
  framerate :: "int option"
  bitrate :: "int option"

definition youtube_url :: string where
  "youtube_url = ''rtmp://a.rtmp.youtube.com/live2''"

definition twitch_url :: string where
  "twitch_url = ''rtmp://live.twitch.tv/app''"

definition facebook_url :: string where
  "facebook_url = ''rtmps://live-api-s.facebook.com:443/rtmp''"

definition localhost_url :: string where
  "localhost_url = ''rtmp://localhost:1935/live''"

text \<open>\<open>getPlatformRTMPUrl(platform, customUrl)\<close>: \<open>switch (platform?.toLowerCase())\<close>.\<close>

definition getPlatformRTMPUrl :: "string option \<Rightarrow> string option \<Rightarrow> string" where
  "getPlatformRTMPUrl plat customUrl =
     (let p = map_option toLowerCase plat in
      if p = Some ''youtube'' then youtube_url
      else if p = Some ''twitch'' then twitch_url
      else if p = Some ''facebook'' then facebook_url
      else if p = Some ''custom'' then (if truthy_str customUrl then the customUrl else localhost_url)
      else (if truthy_str customUrl then the customUrl else youtube_url))"

text \<open>The destination of \<open>startStream\<close>: \<open>`${rtmpUrl}/${config.streamKey}`\<close>.\<close>

definition fullRtmpUrl :: "stream_config \<Rightarrow> string" where
  "fullRtmpUrl config = getPlatformRTMPUrl (platform config) (rtmpUrl config) @ ''/'' @ streamKey config"

text \<open>\<open>getResolutionHeight(resolution)\<close>\<close>

definition getResolutionHeight :: "string \<Rightarrow> int" where
  "getResolutionHeight res =
     (if res = ''1920x1080'' \<or> res = ''1080p'' then 1080
      else if res = ''1280x720'' \<or> res = ''720p'' then 720
      else if res = ''854x480'' \<or> res = ''480p'' then 480
      else if res = ''640x360'' \<or> res = ''360p'' then 360
      else 720)"

text \<open>\<open>config.bitrate || 2500\<close> and \<open>config.framerate || 30\<close>\<close>

definition bitrate_or_default :: "stream_config \<Rightarrow> int" where
  "bitrate_or_default config = (if truthy_num (bitrate config) then the (bitrate config) else 2500)"

definition framerate_or_default :: "stream_config \<Rightarrow> int" where
  "framerate_or_default config = (if truthy_num (framerate config) then the (framerate config) else 30)"

text \<open>The test \<open>config.resolution && config.resolution !== 'original'\<close>.\<close>

definition wants_scale :: "stream_config \<Rightarrow> bool" where
  "wants_scale config = (truthy_str (resolution config) \<and> resolution config \<noteq> Some ''original'')"

definition scale_args :: "stream_config \<Rightarrow> string list" where
  "scale_args config =
     (if wants_scale config
      then [''-vf'', ''scale=-2:'' @ string_of_int (getResolutionHeight (the (resolution config)))]
      else [])"

text \<open>\<open>buildFFmpegArgs(inputPath, outputUrl, config)\<close>\<close>

definition buildFFmpegArgs :: "string \<Rightarrow> string \<Rightarrow> stream_config \<Rightarrow> string list" where
  "buildFFmpegArgs inputPath outputUrl config =
     [''-stream_loop'', ''-1'',
      ''-re'',
      ''-i'', inputPath,
      ''-c:v'', ''libx264'',
      ''-preset'', ''veryfast'',
      ''-tune'', ''zerolatency'',
      ''-pix_fmt'', ''yuv420p'',
      ''-b:v'', string_of_int (bitrate_or_default config) @ ''k'',
      ''-maxrate'', string_of_int (bitrate_or_default config) @ ''k'',
      ''-bufsize'', string_of_int (bitrate_or_default config * 2) @ ''k'',
      ''-r'', string_of_int (framerate_or_default config),
      ''-g'', string_of_int (framerate_or_default config * 2)]
     @ scale_args config
     @ [''-c:a'', ''aac'',
        ''-b:a'', ''128k'',
        ''-ar'', ''44100'',
        ''-ac'', ''2'',
        ''-f'', ''flv'',
        ''-reconnect'', ''1'',
        ''-reconnect_streamed'', ''1'',
        ''-reconnect_delay_max'', ''5'',
        outputUrl]"

text \<open>\<open>formatUptime(milliseconds)\<close>\<close>

definition formatUptime :: "int \<Rightarrow> string" where
  "formatUptime milliseconds =
     (let seconds = milliseconds div 1000;
          hours = seconds div 3600;
          minutes = (js_rem seconds 3600) div 60;
          secs = js_rem seconds 60
      in padStart2 (string_of_int hours) @ '':'' @ padStart2 (string_of_int minutes) @ '':''
         @ padStart2 (string_of_int secs))"

section \<open>The persistent store\<close>

text \<open>
  Rows of the three tables the engine reads and writes, with the columns the server's
  \<open>CREATE TABLE\<close> statements declare (only the columns the engine uses for \<open>videos\<close>
  and \<open>stream_configs\<close>; all of them for \<open>stream_status\<close>).
\<close>

record video =
  video_id :: int
  video_title :: string
  video_filename :: string
  video_playlist_order :: int

record config_row =
  config_id :: int
  config_platform :: string
  config_stream_key :: string
  config_rtmp_url :: "string option"
  config_resolution :: string
  config_framerate :: int
  config_bitrate :: int
  config_is_active :: bool

record status_row =
  status_id :: int
  status :: string
  viewer_count :: "int option"
  uptime :: "string option"
  current_video_id :: "int option"
  started_at :: "nat option"
  loop_playlist :: "bool option"

text \<open>\<open>ORDER BY id DESC LIMIT 1\<close>: the row with the greatest id, if there is a row.\<close>

fun latest_by :: "('a \<Rightarrow> int) \<Rightarrow> 'a list \<Rightarrow> 'a option" where
  "latest_by key [] = None"
| "latest_by key (r # rs) =
     (case latest_by key rs of
        None \<Rightarrow> Some r
      | Some m \<Rightarrow> if key m < key r then Some r else Some m)"

text \<open>\<open>SELECT * FROM stream_status ORDER BY id DESC LIMIT 1\<close>, then \<open>rows[0]\<close>.\<close>

definition latest_status :: "status_row list \<Rightarrow> status_row option" where
  "latest_status rows = latest_by status_id rows"

text \<open>\<open>SELECT * FROM stream_configs WHERE is_active = true ORDER BY id DESC LIMIT 1\<close>\<close>

definition active_config :: "config_row list \<Rightarrow> config_row option" where
  "active_config rows = latest_by config_id (filter config_is_active rows)"

text \<open>\<open>SELECT * FROM videos WHERE id = $1\<close>, then \<open>rows[0]\<close>.\<close>

definition select_video :: "int \<Rightarrow> video list \<Rightarrow> video option" where
  "select_video i rows = find (\<lambda>v. video_id v = i) rows"

text \<open>
  \<open>SELECT * FROM videos ORDER BY playlist_order ASC\<close>. Rows with equal order are kept in
  table order (SQL leaves their order open).
\<close>

definition select_playlist :: "video list \<Rightarrow> video list" where
  "select_playlist rows = sort_key video_playlist_order rows"

text \<open>
  An \<open>UPDATE stream_status SET c1 = $1, ... \<close> statement is a list of column names with
  their parameter values. The store is the PostgreSQL database behind \<open>pg.Pool\<close>: it folds
  an unquoted column name to lower case and rejects the whole statement when a name is
  not a column of the table; nothing is written then and the driver's promise rejects.
  The columns are those of the server's \<open>CREATE TABLE IF NOT EXISTS stream_status\<close>. The
  engine sends strings for \<open>status\<close> and \<open>uptime\<close>, numbers for \<open>viewer_count\<close> and
  \<open>current_video_id\<close>, a date for \<open>started_at\<close>, a boolean for \<open>loop_playlist\<close>, or
  \<open>null\<close>, and never assigns \<open>id\<close>; any other pairing is treated as rejected too. Apart
  from such rejections every query is taken to succeed.
\<close>

definition assign_column :: "string \<Rightarrow> jsval \<Rightarrow> status_row \<Rightarrow> status_row option" where
  "assign_column col v r =
     (let c = toLowerCase col in
      if c = ''status'' then
        (case v of JStr s \<Rightarrow> Some (r\<lparr>status := s\<rparr>) | _ \<Rightarrow> None)
      else if c = ''viewer_count'' then
        (case v of JNum n \<Rightarrow> Some (r\<lparr>viewer_count := Some n\<rparr>)
         | JNull \<Rightarrow> Some (r\<lparr>viewer_count := None\<rparr>)
         | JUndefined \<Rightarrow> Some (r\<lparr>viewer_count := None\<rparr>)
         | _ \<Rightarrow> None)
      else if c = ''uptime'' then
        (case v of JStr s \<Rightarrow> Some (r\<lparr>uptime := Some s\<rparr>)
         | JNull \<Rightarrow> Some (r\<lparr>uptime := None\<rparr>)
         | JUndefined \<Rightarrow> Some (r\<lparr>uptime := None\<rparr>)
         | _ \<Rightarrow> None)
      else if c = ''current_video_id'' then
        (case v of JNum n \<Rightarrow> Some (r\<lparr>current_video_id := Some n\<rparr>)
         | JNull \<Rightarrow> Some (r\<lparr>current_video_id := None\<rparr>)
         | JUndefined \<Rightarrow> Some (r\<lparr>current_video_id := None\<rparr>)
         | _ \<Rightarrow> None)
      else if c = ''started_at'' then
        (case v of JDate t \<Rightarrow> Some (r\<lparr>started_at := Some t\<rparr>)
         | JNull \<Rightarrow> Some (r\<lparr>started_at := None\<rparr>)
         | JUndefined \<Rightarrow> Some (r\<lparr>started_at := None\<rparr>)
         | _ \<Rightarrow> None)
      else if c = ''loop_playlist'' then
        (case v of JBool b \<Rightarrow> Some (r\<lparr>loop_playlist := Some b\<rparr>)
         | JNull \<Rightarrow> Some (r\<lparr>loop_playlist := None\<rparr>)
         | JUndefined \<Rightarrow> Some (r\<lparr>loop_playlist := None\<rparr>)
         | _ \<Rightarrow> None)
      else None)"

fun assign_columns :: "(string \<times> jsval) list \<Rightarrow> status_row \<Rightarrow> status_row option" where
  "assign_columns [] r = Some r"
| "assign_columns ((c, v) # as) r =
     (case assign_column c v r of None \<Rightarrow> None | Some r' \<Rightarrow> assign_columns as r')"

text \<open>
  The statement is analysed against the table before any row is touched, so a statement
  with a bad column is rejected on an empty table too: the check runs on a blank row.
\<close>

definition blank_status_row :: status_row where
  "blank_status_row =
     \<lparr>status_id = 0, status = [], viewer_count = None, uptime = None,
      current_video_id = None, started_at = None, loop_playlist = None\<rparr>"

definition statement_ok :: "(string \<times> jsval) list \<Rightarrow> bool" where
  "statement_ok as = (assign_columns as blank_status_row \<noteq> None)"

definition apply_assignments :: "(string \<times> jsval) list \<Rightarrow> status_row \<Rightarrow> status_row" where
  "apply_assignments as r = (case assign_columns as r of None \<Rightarrow> r | Some r' \<Rightarrow> r')"

text \<open>
  Which rows a statement touches: all of them (no \<open>WHERE\<close>), or those with
  \<open>id = (SELECT MAX(id) FROM stream_status)\<close>.
\<close>

datatype row_filter = AllRows | LatestRow

definition row_selected :: "row_filter \<Rightarrow> status_row list \<Rightarrow> status_row \<Rightarrow> bool" where
  "row_selected f rows r =
     (case f of
        AllRows \<Rightarrow> True
      | LatestRow \<Rightarrow>
          (case latest_status rows of None \<Rightarrow> False | Some m \<Rightarrow> status_id r = status_id m))"

definition update_rows :: "row_filter \<Rightarrow> (string \<times> jsval) list \<Rightarrow> status_row list \<Rightarrow> status_row list" where
  "update_rows f as rows = map (\<lambda>r. if row_selected f rows r then apply_assignments as r else r) rows"

section \<open>The engine and its environment\<close>

text \<open>
  A registry entry is either the marker \<open>{ mock: true }\<close> or a spawned child process.
\<close>

datatype proc_handle = MockProcess | ChildProcess nat

text \<open>
  What \<open>require('child_process')\<close> and \<open>spawn\<close> do in the host: the module is missing, the
  call to \<open>spawn\<close> throws, or a process object is returned. A process that cannot run
  (the executable is missing, say) is still a returned process object; it emits \<open>error\<close>
  later.
\<close>

datatype runtime = RuntimeMissing | SpawnThrows string | SpawnWorks

text \<open>
  The \<open>close\<close> and \<open>error\<close> listeners a process was given, with the \<open>streamKey\<close> their
  closures captured: those of \<open>startStream\<close> or those of \<open>streamToMultiplePlatforms\<close>.
\<close>

datatype listeners = PrimaryListeners string | MultiListeners string

record process =
  proc_listeners :: listeners
  proc_args :: "string list"

text \<open>
  One record holds the fields of the manager object (\<open>activeStreams\<close> to \<open>playlist\<close>, as
  the constructor names them), the three tables, and the host: files on disk, the process
  runtime, the processes spawned so far, the signals sent to them, and the clock in
  milliseconds. JavaScript's \<open>Map\<close> keeps insertion order, so the two maps are association
  lists. \<open>status_log\<close> records every \<open>UPDATE stream_status\<close> statement the engine sends and
  whether the store accepted it.

  Control flow is single-threaded and event-driven. Each method and each listener is
  modelled as one step from state to state: what other handlers might do while a method
  is suspended at an \<open>await\<close> is not part of the step.
\<close>

record world =
  activeStreams :: "(string \<times> proc_handle) list"
  streamConfigs :: "(string \<times> stream_config) list"
  loopEnabled :: bool
  uptimeInterval :: "nat option"
  streamStartTime :: "nat option"
  currentVideoIndex :: int
  playlist :: "video list"
  videos :: "video list"
  stream_configs :: "config_row list"
  stream_status :: "status_row list"
  status_log :: "(row_filter \<times> (string \<times> jsval) list \<times> bool) list"
  files :: "string list"
  runtime :: runtime
  processes :: "(nat \<times> process) list"
  signals :: "(nat \<times> string) list"
  next_pid :: nat
  next_timer :: nat
  clock :: nat

text \<open>The fields of the manager object alone.\<close>

definition engine_state ::
  "world \<Rightarrow> (string \<times> proc_handle) list \<times> (string \<times> stream_config) list \<times> bool
     \<times> nat option \<times> nat option \<times> int \<times> video list" where
  "engine_state w =
     (activeStreams w, streamConfigs w, loopEnabled w, uptimeInterval w, streamStartTime w,
      currentVideoIndex w, playlist w)"

text \<open>\<open>new RTMPStreamManager()\<close> in a given environment.\<close>

definition constructor ::
  "video list \<Rightarrow> config_row list \<Rightarrow> status_row list \<Rightarrow> string list \<Rightarrow> runtime \<Rightarrow> nat \<Rightarrow> world" where
  "constructor vs cs ss fs rt now =
     \<lparr>activeStreams = [], streamConfigs = [], loopEnabled = False, uptimeInterval = None,
      streamStartTime = None, currentVideoIndex = 0, playlist = [],
      videos = vs, stream_configs = cs, stream_status = ss, status_log = [],
      files = fs, runtime = rt, processes = [], signals = [], next_pid = 1, next_timer = 1,
      clock = now\<rparr>"

text \<open>
  \<open>db.query('UPDATE stream_status SET ...', values)\<close>: the result tells whether the promise
  resolved (\<open>True\<close>) or rejected.
\<close>

definition exec_update :: "row_filter \<Rightarrow> (string \<times> jsval) list \<Rightarrow> world \<Rightarrow> bool \<times> world" where
  "exec_update f as w =
     (if statement_ok as
      then (True, w\<lparr>stream_status := update_rows f as (stream_status w),
                     status_log := status_log w @ [(f, as, True)]\<rparr>)
      else (False, w\<lparr>status_log := status_log w @ [(f, as, False)]\<rparr>))"

text \<open>\<open>obj.key\<close> on an object literal.\<close>

definition js_get :: "(string \<times> jsval) list \<Rightarrow> string \<Rightarrow> jsval" where
  "js_get obj k = (case map_of obj k of None \<Rightarrow> JUndefined | Some v \<Rightarrow> v)"

text \<open>\<open>{ ...base, ...extra }\<close>: a key already present keeps its place and takes the new value.\<close>

definition spread :: "(string \<times> jsval) list \<Rightarrow> (string \<times> jsval) list \<Rightarrow> (string \<times> jsval) list" where
  "spread base extra = fold (\<lambda>kv. AList.update (fst kv) (snd kv)) extra base"

text \<open>The object \<open>updateData\<close> of \<open>updateStreamStatus\<close>, keys in order.\<close>

definition updateData :: "string \<Rightarrow> jsval \<Rightarrow> (string \<times> jsval) list \<Rightarrow> nat \<Rightarrow> (string \<times> jsval) list" where
  "updateData st videoId additionalData now =
     spread
       [(''status'', JStr st),
        (''current_video_id'', videoId),
        (''started_at'', if st = ''live'' then JDate now else JNull),
        (''viewer_count'', js_or (js_get additionalData ''viewerCount'') (JNum 0)),
        (''uptime'', js_or (js_get additionalData ''uptime'') (JStr ''00:00:00'')),
        (''loop_playlist'',
           if js_get additionalData ''loopPlaylist'' \<noteq> JUndefined
           then js_get additionalData ''loopPlaylist'' else JBool False)]
       additionalData"

text \<open>
  \<open>updateStreamStatus(status, videoId, additionalData)\<close>: the statement is built from the
  keys of \<open>updateData\<close>; a rejected query is caught and logged.
\<close>

definition updateStreamStatus :: "string \<Rightarrow> jsval \<Rightarrow> (string \<times> jsval) list \<Rightarrow> world \<Rightarrow> world" where
  "updateStreamStatus st videoId additionalData w =
     snd (exec_update LatestRow (updateData st videoId additionalData (clock w)) w)"

text \<open>\<open>setLoopEnabled\<close>, \<open>isLoopEnabled\<close>, \<open>isStreaming\<close>\<close>

definition setLoopEnabled :: "bool \<Rightarrow> world \<Rightarrow> world" where
  "setLoopEnabled enabled w = w\<lparr>loopEnabled := enabled\<rparr>"

definition isLoopEnabled :: "world \<Rightarrow> bool" where
  "isLoopEnabled w = loopEnabled w"

definition isStreaming :: "world \<Rightarrow> bool" where
  "isStreaming w = (0 < length (activeStreams w))"

text \<open>\<open>stopUptimeTracking()\<close>\<close>

definition stopUptimeTracking :: "world \<Rightarrow> world" where
  "stopUptimeTracking w = w\<lparr>uptimeInterval := None, streamStartTime := None\<rparr>"

text \<open>
  \<open>startUptimeTracking()\<close>: sets the start time, calls \<open>stopUptimeTracking\<close>, then
  installs the interval.
\<close>

definition startUptimeTracking :: "world \<Rightarrow> world" where
  "startUptimeTracking w =
     (let w1 = w\<lparr>streamStartTime := Some (clock w)\<rparr>;
          w2 = stopUptimeTracking w1
      in w2\<lparr>uptimeInterval := Some (next_timer w2), next_timer := Suc (next_timer w2)\<rparr>)"

text \<open>\<open>loadPlaylist()\<close>\<close>

definition loadPlaylist :: "world \<Rightarrow> world" where
  "loadPlaylist w = w\<lparr>playlist := select_playlist (videos w)\<rparr>"

text \<open>\<open>if (!process.mock) process.kill('SIGTERM')\<close>\<close>

definition kill :: "proc_handle \<Rightarrow> world \<Rightarrow> world" where
  "kill h w =
     (case h of
        MockProcess \<Rightarrow> w
      | ChildProcess pid \<Rightarrow> w\<lparr>signals := signals w @ [(pid, ''SIGTERM'')]\<rparr>)"

text \<open>\<open>stopStream(streamKey = null)\<close> and \<open>stopAllStreams()\<close>\<close>

definition stopStream :: "string option \<Rightarrow> world \<Rightarrow> bool \<times> world" where
  "stopStream key w =
     (let w1 =
        (if truthy_str key then
           (let k = the key;
                w' = (case map_of (activeStreams w) k of None \<Rightarrow> w | Some h \<Rightarrow> kill h w)
            in w'\<lparr>activeStreams := AList.delete k (activeStreams w')\<rparr>)
         else (fold kill (map snd (activeStreams w)) w)\<lparr>activeStreams := []\<rparr>)
      in (True, stopUptimeTracking w1))"

definition stopAllStreams :: "world \<Rightarrow> bool \<times> world" where
  "stopAllStreams w = stopStream None w"

text \<open>\<open>spawn('ffmpeg', args)\<close> followed by the registration of the listeners.\<close>

definition spawn :: "listeners \<Rightarrow> string list \<Rightarrow> world \<Rightarrow> nat \<times> world" where
  "spawn ls args w =
     (next_pid w,
      w\<lparr>processes := processes w @ [(next_pid w, \<lparr>proc_listeners = ls, proc_args = args\<rparr>)],
        next_pid := Suc (next_pid w)\<rparr>)"

text \<open>\<open>path.join(__dirname, 'uploads', video.filename)\<close>, relative to \<open>__dirname\<close>.\<close>

definition upload_path :: "video \<Rightarrow> string" where
  "upload_path v = ''uploads/'' @ video_filename v"

text \<open>
  The \<open>try\<close> block of \<open>startStream(videoId, config)\<close>. Whatever is thrown inside is a value
  on the left, together with the state at the throw.
\<close>

datatype error = VideoNotFound | VideoFileNotFound | SpawnError string

definition startStream_try :: "int \<Rightarrow> stream_config \<Rightarrow> world \<Rightarrow> (error + bool) \<times> world" where
  "startStream_try videoId config w =
     (case select_video videoId (videos w) of
        None \<Rightarrow> (Inl VideoNotFound, w)
      | Some v \<Rightarrow>
          if upload_path v \<notin> set (files w) then (Inl VideoFileNotFound, w)
          else
            (let key = ''video_'' @ string_of_int videoId;
                 w1 = (if map_of (activeStreams w) key \<noteq> None
                       then snd (stopStream (Some key) w) else w);
                 args = buildFFmpegArgs (upload_path v) (fullRtmpUrl config) config
             in case runtime w1 of
                  RuntimeMissing \<Rightarrow>
                    (Inr True,
                     startUptimeTracking
                       (w1\<lparr>activeStreams := AList.update key MockProcess (activeStreams w1),
                           streamStartTime := Some (clock w1)\<rparr>))
                | SpawnThrows msg \<Rightarrow> (Inl (SpawnError msg), w1)
                | SpawnWorks \<Rightarrow>
                    (let (pid, w2) = spawn (PrimaryListeners key) args w1;
                         w3 = w2\<lparr>activeStreams := AList.update key (ChildProcess pid) (activeStreams w2),
                                 streamConfigs := AList.update key config (streamConfigs w2),
                                 streamStartTime := Some (clock w2)\<rparr>
                     in (Inr True, loadPlaylist (startUptimeTracking w3)))))"

text \<open>\<open>startStream\<close> with its \<open>catch\<close>: any error is logged and \<open>false\<close> is returned.\<close>

definition startStream :: "int \<Rightarrow> stream_config \<Rightarrow> world \<Rightarrow> bool \<times> world" where
  "startStream videoId config w =
     (case startStream_try videoId config w of
        (Inl e, w') \<Rightarrow> (False, w')
      | (Inr b, w') \<Rightarrow> (b, w'))"

text \<open>The profile \<open>playNextVideo\<close> builds from the active \<open>stream_configs\<close> row.\<close>

definition config_of_row :: "config_row \<Rightarrow> stream_config" where
  "config_of_row c =
     \<lparr>platform = Some (config_platform c), streamKey = config_stream_key c,
      rtmpUrl = config_rtmp_url c, resolution = Some (config_resolution c),
      framerate = Some (config_framerate c), bitrate = Some (config_bitrate c)\<rparr>"

text \<open>\<open>currentStatus.rows[0]?.current_video_id\<close>\<close>

definition persisted_current :: "world \<Rightarrow> int option" where
  "persisted_current w =
     (case latest_status (stream_status w) of None \<Rightarrow> None | Some r \<Rightarrow> current_video_id r)"

text \<open>\<open>playNextVideo()\<close>\<close>

definition playNextVideo :: "world \<Rightarrow> world" where
  "playNextVideo w =
     (if loopEnabled w \<and> playlist w \<noteq> [] then
        (let currentVideoId = persisted_current w;
             idx0 = (if truthy_num currentVideoId
                     then findIndex (\<lambda>v. video_id v = the currentVideoId) (playlist w)
                     else currentVideoIndex w);
             idx = js_rem (idx0 + 1) (int (length (playlist w)));
             w1 = w\<lparr>currentVideoIndex := idx\<rparr>
         in case js_index (playlist w1) idx of
              None \<Rightarrow> w1
            | Some nextVideo \<Rightarrow>
                (let w2 = snd (exec_update AllRows [(''current_video_id'', JNum (video_id nextVideo))] w1)
                 in case active_config (stream_configs w2) of
                      None \<Rightarrow> w2
                    | Some sc \<Rightarrow> snd (startStream (video_id nextVideo) (config_of_row sc) w2)))
      else w)"

text \<open>
  The listeners \<open>startStream\<close> registers on the process: \<open>on('close', (code) => ...)\<close>
  and \<open>on('error', (error) => ...)\<close>, with the captured \<open>streamKey\<close>.
\<close>

definition close_handler :: "string \<Rightarrow> int option \<Rightarrow> world \<Rightarrow> world" where
  "close_handler key code w =
     (let w1 = w\<lparr>activeStreams := AList.delete key (activeStreams w)\<rparr>
      in if loopEnabled w1 then playNextVideo w1
         else updateStreamStatus ''offline'' JNull
                [(''viewerCount'', JNum 0), (''uptime'', JStr ''00:00:00''),
                 (''loopPlaylist'', JBool False)]
                (stopUptimeTracking w1))"

definition error_handler :: "string \<Rightarrow> string \<Rightarrow> world \<Rightarrow> world" where
  "error_handler key message w =
     (let w1 = w\<lparr>activeStreams := AList.delete key (activeStreams w)\<rparr>
      in updateStreamStatus ''error'' JNull
           [(''viewerCount'', JNum 0), (''uptime'', JStr ''00:00:00''),
            (''loopPlaylist'', JBool False), (''errorMessage'', JStr message)]
           (stopUptimeTracking w1))"

section \<open>The multi-destination session\<close>

record destination =
  dest_url :: string
  dest_key :: string

definition multi_args :: "string \<Rightarrow> destination list \<Rightarrow> string list" where
  "multi_args videoPath platforms =
     [''-re'',
      ''-i'', videoPath,
      ''-c:v'', ''libx264'',
      ''-c:a'', ''aac'',
      ''-preset'', ''veryfast'',
      ''-maxrate'', ''3000k'',
      ''-bufsize'', ''6000k'',
      ''-vf'', ''scale=-2:720'',
      ''-g'', ''60'',
      ''-r'', ''30'',
      ''-f'', ''flv'']
     @ concat (map (\<lambda>p. [''-f'', ''flv'', dest_url p @ ''/'' @ dest_key p]) platforms)"

text \<open>The \<open>try\<close> block of \<open>streamToMultiplePlatforms(videoId, platforms)\<close>.\<close>

definition streamToMultiplePlatforms_try ::
  "int \<Rightarrow> destination list \<Rightarrow> world \<Rightarrow> (error + bool) \<times> world" where
  "streamToMultiplePlatforms_try videoId platforms w =
     (case select_video videoId (videos w) of
        None \<Rightarrow> (Inl VideoNotFound, w)
      | Some v \<Rightarrow>
          (let key = ''multistream_'' @ string_of_int videoId;
               w1 = (if map_of (activeStreams w) key \<noteq> None
                     then snd (stopStream (Some key) w) else w);
               args = multi_args (upload_path v) platforms
           in case runtime w1 of
                RuntimeMissing \<Rightarrow>
                  (Inr True, w1\<lparr>activeStreams := AList.update key MockProcess (activeStreams w1)\<rparr>)
              | SpawnThrows msg \<Rightarrow> (Inl (SpawnError msg), w1)
              | SpawnWorks \<Rightarrow>
                  (let (pid, w2) = spawn (MultiListeners key) args w1
                   in (Inr True,
                       w2\<lparr>activeStreams := AList.update key (ChildProcess pid) (activeStreams w2)\<rparr>))))"

definition streamToMultiplePlatforms :: "int \<Rightarrow> destination list \<Rightarrow> world \<Rightarrow> bool \<times> world" where
  "streamToMultiplePlatforms videoId platforms w =
     (case streamToMultiplePlatforms_try videoId platforms w of
        (Inl e, w') \<Rightarrow> (False, w')
      | (Inr b, w') \<Rightarrow> (b, w'))"

text \<open>Its listeners: both only delete the registry entry.\<close>

definition multi_close_handler :: "string \<Rightarrow> int option \<Rightarrow> world \<Rightarrow> world" where
  "multi_close_handler key code w = w\<lparr>activeStreams := AList.delete key (activeStreams w)\<rparr>"

definition multi_error_handler :: "string \<Rightarrow> string \<Rightarrow> world \<Rightarrow> world" where
  "multi_error_handler key message w = w\<lparr>activeStreams := AList.delete key (activeStreams w)\<rparr>"

section \<open>Events\<close>

text \<open>
  A process emits \<open>close\<close> (with its exit code) or \<open>error\<close> (with a message); the listeners
  registered at spawn time run.
\<close>

definition emit_close :: "nat \<Rightarrow> int option \<Rightarrow> world \<Rightarrow> world" where
  "emit_close pid code w =
     (case map_of (processes w) pid of
        None \<Rightarrow> w
      | Some p \<Rightarrow>
          (case proc_listeners p of
             PrimaryListeners key \<Rightarrow> close_handler key code w
           | MultiListeners key \<Rightarrow> multi_close_handler key code w))"

definition emit_error :: "nat \<Rightarrow> string \<Rightarrow> world \<Rightarrow> world" where
  "emit_error pid message w =
     (case map_of (processes w) pid of
        None \<Rightarrow> w
      | Some p \<Rightarrow>
          (case proc_listeners p of
             PrimaryListeners key \<Rightarrow> error_handler key message w
           | MultiListeners key \<Rightarrow> multi_error_handler key message w))"

text \<open>
  The callback \<open>startUptimeTracking\<close> hands to \<open>setInterval\<close>. \<open>rnd\<close> is the value of
  \<open>Math.floor(Math.random() * 100)\<close> drawn in this tick.
\<close>

definition synthetic_viewers :: "int \<Rightarrow> int" where
  "synthetic_viewers rnd = (let baseViewers = 50; randomVariation = rnd - 50
                            in max 0 (baseViewers + randomVariation))"

definition uptime_tick :: "int \<Rightarrow> world \<Rightarrow> world" where
  "uptime_tick rnd w =
     (case streamStartTime w of
        None \<Rightarrow> w
      | Some t0 \<Rightarrow>
          if 0 < length (activeStreams w) then
            (let uptimeMs = int (clock w) - int t0;
                 uptimeString = formatUptime uptimeMs
             in case latest_status (stream_status w) of
                  None \<Rightarrow> w
                | Some s \<Rightarrow>
                    if status s = ''live'' then
                      snd (exec_update LatestRow
                             [(''uptime'', JStr uptimeString),
                              (''viewer_count'', JNum (synthetic_viewers rnd))] w)
                    else w)
          else w)"

text \<open>The interval fires only while it is installed.\<close>

definition interval_fires :: "int \<Rightarrow> world \<Rightarrow> world" where
  "interval_fires rnd w = (if uptimeInterval w = None then w else uptime_tick rnd w)"

text \<open>Everything that can happen to the engine: a call of one of its methods, or an event.\<close>

datatype operation =
    StartStream int stream_config
  | StopStream "string option"
  | StopAllStreams
  | SetLoopEnabled bool
  | LoadPlaylist
  | PlayNextVideo
  | StreamToMultiplePlatforms int "destination list"
  | StartUptimeTracking
  | StopUptimeTracking
  | UpdateStreamStatus string jsval "(string \<times> jsval) list"
  | ProcessClose nat "int option"
  | ProcessError nat string
  | IntervalFires int

fun perform :: "operation \<Rightarrow> world \<Rightarrow> world" where
  "perform (StartStream videoId config) w = snd (startStream videoId config w)"
| "perform (StopStream key) w = snd (stopStream key w)"
| "perform StopAllStreams w = snd (stopAllStreams w)"
| "perform (SetLoopEnabled b) w = setLoopEnabled b w"
| "perform LoadPlaylist w = loadPlaylist w"
| "perform PlayNextVideo w = playNextVideo w"
| "perform (StreamToMultiplePlatforms videoId platforms) w = snd (streamToMultiplePlatforms videoId platforms w)"
| "perform StartUptimeTracking w = startUptimeTracking w"
| "perform StopUptimeTracking w = stopUptimeTracking w"
| "perform (UpdateStreamStatus st videoId additionalData) w = updateStreamStatus st videoId additionalData w"
| "perform (ProcessClose pid code) w = emit_close pid code w"
| "perform (ProcessError pid message) w = emit_error pid message w"
| "perform (IntervalFires rnd) w = interval_fires rnd w"

definition run :: "operation list \<Rightarrow> world \<Rightarrow> world" where
  "run ops w = fold perform ops w"

section \<open>Reference values used in the statements\<close>

text \<open>A two-digit decimal field, as \<open>HH:MM:SS\<close> shows minutes and seconds.\<close>

definition two_digits :: "nat \<Rightarrow> string" where
  "two_digits n = [digit_char (n div 10), digit_char (n mod 10)]"

text \<open>A profile as the start route builds it from a \<open>stream_configs\<close> row.\<close>

definition example_config :: stream_config where
  "example_config =
     \<lparr>platform = Some ''youtube'', streamKey = ''abc'', rtmpUrl = None,
      resolution = Some ''1280x720'', framerate = Some 30, bitrate = Some 2500\<rparr>"

text \<open>
  What starting or stopping a session never changes: the loop flag, the playlist cursor,
  the three tables and the log of status statements, the files, the runtime and the clock.
\<close>

definition beyond_sessions ::
  "world \<Rightarrow> bool \<times> int \<times> video list \<times> config_row list \<times> status_row list
     \<times> (row_filter \<times> (string \<times> jsval) list \<times> bool) list \<times> string list \<times> runtime \<times> nat" where
  "beyond_sessions w =
     (loopEnabled w, currentVideoIndex w, videos w, stream_configs w, stream_status w,
      status_log w, files w, runtime w, clock w)"

text \<open>\<open>k\<close> playlist-advance handoffs in a row.\<close>

definition advances :: "nat \<Rightarrow> world \<Rightarrow> world" where
  "advances k w = (playNextVideo ^^ k) w"

text \<open>
  A small installation: two uploaded items in playlist order, one active YouTube profile, a
  status row that the start route has marked \<open>live\<close> for the first item, and a working
  process runtime.
\<close>

definition item_a :: video where
  "item_a = \<lparr>video_id = 1, video_title = ''A'', video_filename = ''a.mp4'', video_playlist_order = 1\<rparr>"

definition item_b :: video where
  "item_b = \<lparr>video_id = 2, video_title = ''B'', video_filename = ''b.mp4'', video_playlist_order = 2\<rparr>"

definition active_profile :: config_row where
  "active_profile =
     \<lparr>config_id = 1, config_platform = ''youtube'', config_stream_key = ''abc'',
      config_rtmp_url = None, config_resolution = ''1280x720'', config_framerate = 30,
      config_bitrate = 2500, config_is_active = True\<rparr>"

definition live_row :: status_row where
  "live_row =
     \<lparr>status_id = 1, status = ''live'', viewer_count = Some 50, uptime = Some ''00:01:00'',
      current_video_id = Some 1, started_at = Some 1000, loop_playlist = Some False\<rparr>"

definition example_world :: world where
  "example_world =
     constructor [item_a, item_b] [active_profile] [live_row]
       [''uploads/a.mp4'', ''uploads/b.mp4''] SpawnWorks 1000"

text \<open>The same installation with no active profile in \<open>stream_configs\<close>.\<close>

definition example_world_no_profile :: world where
  "example_world_no_profile =
     constructor [item_a, item_b] [] [live_row]
       [''uploads/a.mp4'', ''uploads/b.mp4''] SpawnWorks 1000"

text \<open>The installation while item 2 is streaming, with \<open>a.mp4\<close> removed from disk.\<close>

definition example_world_file_gone :: world where
  "example_world_file_gone =
     (snd (startStream 2 example_config example_world))\<lparr>files := [''uploads/b.mp4'']\<rparr>"

text \<open>The installation on a host where \<open>spawn\<close> throws.\<close>

definition example_world_spawn_throws :: world where
  "example_world_spawn_throws =
     constructor [item_a, item_b] [active_profile] [live_row]
       [''uploads/a.mp4'', ''uploads/b.mp4''] (SpawnThrows ''spawn EAGAIN'') 1000"

text \<open>
  The installation with loop mode on, after item 1 was sent to one extra destination with
  \<open>streamToMultiplePlatforms\<close>.
\<close>

definition example_multi_world :: world where
  "example_multi_world =
     snd (streamToMultiplePlatforms 1 [\<lparr>dest_url = ''rtmp://live.twitch.tv/app'', dest_key = ''k1''\<rparr>]
            (setLoopEnabled True example_world))"

text \<open>The installation on a host without the \<open>child_process\<close> module.\<close>

definition example_world_no_runtime :: world where
  "example_world_no_runtime =
     constructor [item_a, item_b] [active_profile] [live_row]
       [''uploads/a.mp4'', ''uploads/b.mp4''] RuntimeMissing 1000"

text \<open>
  The installation after \<open>startStream\<close> for item 1, a little over an hour later on the
  clock.
\<close>

definition example_streaming_world :: world where
  "example_streaming_world =
     (run [StartStream 1 example_config] example_world)\<lparr>clock := 3726000\<rparr>"

text \<open>
  The installation with loop mode on in memory and in the status row, while item 1 is
  streaming.
\<close>

definition example_loop_world :: world where
  "example_loop_world =
     run [SetLoopEnabled True, StartStream 1 example_config]
       (example_world\<lparr>stream_status := [live_row\<lparr>loop_playlist := Some True\<rparr>]\<rparr>)"

text \<open>
  The looped installation with a status row whose current item (9) is not in the playlist,
  and the looped installation after the profile was deactivated.
\<close>

definition example_stale_world :: world where
  "example_stale_world =
     example_loop_world\<lparr>stream_status := [live_row\<lparr>current_video_id := Some 9\<rparr>]\<rparr>"

definition example_loop_world_no_profile :: world where
  "example_loop_world_no_profile = example_loop_world\<lparr>stream_configs := []\<rparr>"

section \<open>Unfolding the model on concrete installations\<close>

lemmas eval_defs =
  run_def startStream_def startStream_try_def stopStream_def stopAllStreams_def
  setLoopEnabled_def playNextVideo_def close_handler_def error_handler_def emit_close_def emit_error_def
  updateStreamStatus_def updateData_def spread_def js_get_def js_or_def exec_update_def statement_ok_def
  assign_column_def blank_status_row_def update_rows_def row_selected_def apply_assignments_def
  latest_status_def active_config_def persisted_current_def
  startUptimeTracking_def stopUptimeTracking_def loadPlaylist_def select_playlist_def select_video_def
  spawn_def kill_def upload_path_def js_rem_def js_index_def
  example_world_def example_world_no_profile_def constructor_def item_a_def item_b_def
  active_profile_def live_row_def example_config_def config_of_row_def
  toLowerCase_def toLowerChar_def string_of_int_def string_of_nat.simps digit_char_def
  example_world_file_gone_def example_world_spawn_throws_def example_multi_world_def
  example_world_no_runtime_def example_streaming_world_def example_loop_world_def example_stale_world_def
  example_loop_world_no_profile_def uptime_tick_def interval_fires_def synthetic_viewers_def
  streamToMultiplePlatforms_def streamToMultiplePlatforms_try_def multi_args_def
  multi_close_handler_def multi_error_handler_def
  engine_state_def Let_def


section \<open>Decimal strings and the uptime format\<close>

lemma string_of_nat_small: "n < 10 \<Longrightarrow> string_of_nat n = [digit_char n]"
  by (subst string_of_nat.simps) simp

lemma string_of_nat_two: "10 \<le> n \<Longrightarrow> n < 100 \<Longrightarrow> string_of_nat n = two_digits n"
  by (subst string_of_nat.simps) (simp add: two_digits_def string_of_nat_small)

lemma string_of_nat_not_Nil: "string_of_nat n \<noteq> []"
  by (subst string_of_nat.simps) simp

lemma length_string_of_nat_ge2: "10 \<le> n \<Longrightarrow> 2 \<le> length (string_of_nat n)"
proof -
  assume "10 \<le> n"
  then have "string_of_nat n = string_of_nat (n div 10) @ [digit_char (n mod 10)]"
    by (subst string_of_nat.simps) simp
  moreover have "1 \<le> length (string_of_nat (n div 10))"
    using string_of_nat_not_Nil [of "n div 10"] by (cases "string_of_nat (n div 10)") simp_all
  ultimately show ?thesis by simp
qed

lemma padStart2_two_digits: "n < 100 \<Longrightarrow> padStart2 (string_of_nat n) = two_digits n"
proof (cases "n < 10")
  case True
  then show ?thesis
    by (simp add: padStart2_def string_of_nat_small two_digits_def digit_char_def)
next
  case False
  assume "n < 100"
  with False show ?thesis
    by (simp add: padStart2_def string_of_nat_two two_digits_def)
qed

lemma length_padStart2: "2 \<le> length (padStart2 s)"
  by (simp add: padStart2_def)

lemma js_rem_nonneg: "0 \<le> a \<Longrightarrow> 0 < b \<Longrightarrow> js_rem a b = a mod b"
  by (simp add: js_rem_def)

lemma mod_3600_div_60: "(t::nat) mod 3600 div 60 = t div 60 mod 60"
proof -
  have "t mod (60 * 60) = 60 * (t div 60 mod 60) + t mod 60"
    by (rule mod_mult2_eq)
  then have "t mod 3600 div 60 = (60 * (t div 60 mod 60) + t mod 60) div 60"
    by simp
  also have "\<dots> = t div 60 mod 60"
    by simp
  finally show ?thesis .
qed

lemma string_of_int_of_nat: "string_of_int (int n) = string_of_nat n"
  by (simp add: string_of_int_def)

lemma formatUptime_of_nat:
  "formatUptime (int ms) =
     padStart2 (string_of_nat (ms div 1000 div 3600)) @ '':''
     @ two_digits (ms div 1000 div 60 mod 60) @ '':''
     @ two_digits (ms div 1000 mod 60)"
proof -
  define t where "t = ms div 1000"
  have s: "int ms div 1000 = int t"
    by (simp add: t_def zdiv_int)
  have h: "int t div 3600 = int (t div 3600)"
    by (simp add: zdiv_int)
  have m1: "js_rem (int t) 3600 = int (t mod 3600)"
    by (simp add: js_rem_nonneg zmod_int)
  have m2: "int (t mod 3600) div 60 = int (t mod 3600 div 60)"
    by (simp add: zdiv_int)
  have m: "js_rem (int t) 3600 div 60 = int (t div 60 mod 60)"
    unfolding m1 m2 mod_3600_div_60 ..
  have c: "js_rem (int t) 60 = int (t mod 60)"
    by (simp add: js_rem_nonneg zmod_int)
  have "formatUptime (int ms) =
          padStart2 (string_of_nat (t div 3600)) @ '':''
          @ padStart2 (string_of_nat (t div 60 mod 60)) @ '':''
          @ padStart2 (string_of_nat (t mod 60))"
    unfolding formatUptime_def Let_def s h m c string_of_int_of_nat ..
  then show ?thesis
    by (simp add: padStart2_two_digits t_def)
qed

section \<open>Transcoder arguments and destination\<close>

lemma length_buildFFmpegArgs:
  "length (buildFFmpegArgs i out c) = (if wants_scale c then 42 else 40)"
  by (simp add: buildFFmpegArgs_def scale_args_def)

lemma buildFFmpegArgs_23:
  "buildFFmpegArgs i out c ! 23 = (if wants_scale c then ''-vf'' else ''-c:a'')"
  by (simp add: buildFFmpegArgs_def scale_args_def nth_append)

lemma buildFFmpegArgs_24:
  "wants_scale c \<Longrightarrow>
   buildFFmpegArgs i out c ! 24 = ''scale=-2:'' @ string_of_int (getResolutionHeight (the (resolution c)))"
  by (simp add: buildFFmpegArgs_def scale_args_def nth_append)

text \<open>
  Claim C7, as amended. The height table: the eight listed resolutions give 1080, 1080, 720,
  720, 480, 480, 360 and 360, and every other string gives 720. The scale filter
  \<open>-vf scale=-2:<height>\<close> is the 24th and 25th argument exactly when the profile's
  resolution is present, not the empty string, and not \<open>original\<close>; otherwise the audio
  options follow the video options directly.
\<close>

theorem resolution_table_and_scale_filter:
  "getResolutionHeight ''1920x1080'' = 1080 \<and> getResolutionHeight ''1080p'' = 1080 \<and>
   getResolutionHeight ''1280x720'' = 720 \<and> getResolutionHeight ''720p'' = 720 \<and>
   getResolutionHeight ''854x480'' = 480 \<and> getResolutionHeight ''480p'' = 480 \<and>
   getResolutionHeight ''640x360'' = 360 \<and> getResolutionHeight ''360p'' = 360 \<and>
   (res \<notin> set [''1920x1080'', ''1080p'', ''1280x720'', ''720p'', ''854x480'', ''480p'',
                  ''640x360'', ''360p''] \<longrightarrow> getResolutionHeight res = 720) \<and>
   (let args = buildFFmpegArgs inputPath outputUrl config in
      if truthy_str (resolution config) \<and> resolution config \<noteq> Some ''original''
      then length args = 42 \<and> args ! 23 = ''-vf'' \<and>
           args ! 24 = ''scale=-2:'' @ string_of_int (getResolutionHeight (the (resolution config)))
      else length args = 40 \<and> args ! 23 = ''-c:a'')"
proof -
  have table: "getResolutionHeight ''1920x1080'' = 1080 \<and> getResolutionHeight ''1080p'' = 1080 \<and>
   getResolutionHeight ''1280x720'' = 720 \<and> getResolutionHeight ''720p'' = 720 \<and>
   getResolutionHeight ''854x480'' = 480 \<and> getResolutionHeight ''480p'' = 480 \<and>
   getResolutionHeight ''640x360'' = 360 \<and> getResolutionHeight ''360p'' = 360"
    by (simp add: getResolutionHeight_def)
  have other: "res \<notin> set [''1920x1080'', ''1080p'', ''1280x720'', ''720p'', ''854x480'', ''480p'',
                  ''640x360'', ''360p''] \<longrightarrow> getResolutionHeight res = 720"
    by (simp add: getResolutionHeight_def)
  have scale: "let args = buildFFmpegArgs inputPath outputUrl config in
      if truthy_str (resolution config) \<and> resolution config \<noteq> Some ''original''
      then length args = 42 \<and> args ! 23 = ''-vf'' \<and>
           args ! 24 = ''scale=-2:'' @ string_of_int (getResolutionHeight (the (resolution config)))
      else length args = 40 \<and> args ! 23 = ''-c:a''"
    using buildFFmpegArgs_24 [of config inputPath outputUrl]
    by (simp add: Let_def length_buildFFmpegArgs buildFFmpegArgs_23 wants_scale_def)
  from table other scale show ?thesis by blast
qed

lemma string_of_int_720: "string_of_int 720 = ''720''"
  by (simp add: string_of_int_def string_of_nat.simps digit_char_def)

theorem resolution_table_and_scale_filter_witness:
  "''4k'' \<notin> set [''1920x1080'', ''1080p'', ''1280x720'', ''720p'', ''854x480'', ''480p'',
                  ''640x360'', ''360p''] \<and> getResolutionHeight ''4k'' = 720 \<and>
   buildFFmpegArgs ''uploads/a.mp4'' ''rtmp://a.rtmp.youtube.com/live2/abc'' example_config ! 24
     = ''scale=-2:720''"
  using resolution_table_and_scale_filter
          [of "''4k''" "''uploads/a.mp4''" "''rtmp://a.rtmp.youtube.com/live2/abc''" example_config]
  by (simp add: example_config_def Let_def string_of_int_720)

text \<open>
  The claim as written (the filter is applied exactly when the resolution is not
  \<open>original\<close>) fails for the empty resolution string: it is not \<open>original\<close>, and no
  filter is added.
\<close>

theorem scale_filter_counterexample:
  "resolution (example_config\<lparr>resolution := Some ''''\<rparr>) \<noteq> Some ''original'' \<and>
   length (buildFFmpegArgs ''uploads/a.mp4'' ''rtmp://a.rtmp.youtube.com/live2/abc''
             (example_config\<lparr>resolution := Some ''''\<rparr>)) = 40 \<and>
   ''-vf'' \<notin> set (buildFFmpegArgs ''uploads/a.mp4'' ''rtmp://a.rtmp.youtube.com/live2/abc''
             (example_config\<lparr>resolution := Some ''''\<rparr>))"
  by (simp add: buildFFmpegArgs_def scale_args_def wants_scale_def example_config_def
        bitrate_or_default_def framerate_or_default_def string_of_int_def string_of_nat.simps digit_char_def)

text \<open>
  Claim C6, as amended. The platform identifier is compared after lower-casing.
  \<open>youtube\<close>, \<open>twitch\<close> and \<open>facebook\<close> give their fixed endpoints; \<open>custom\<close> gives
  the profile's URL, or the local endpoint when the profile has none; any other or missing
  identifier gives the profile's URL when it has one and the YouTube endpoint otherwise.
  The destination is that URL, a slash, and the stream key.
\<close>

theorem platform_url_table:
  "getPlatformRTMPUrl (Some p) customUrl =
     (if toLowerCase p = ''youtube'' then ''rtmp://a.rtmp.youtube.com/live2''
      else if toLowerCase p = ''twitch'' then ''rtmp://live.twitch.tv/app''
      else if toLowerCase p = ''facebook'' then ''rtmps://live-api-s.facebook.com:443/rtmp''
      else if toLowerCase p = ''custom''
        then (if truthy_str customUrl then the customUrl else ''rtmp://localhost:1935/live'')
      else (if truthy_str customUrl then the customUrl else ''rtmp://a.rtmp.youtube.com/live2'')) \<and>
   getPlatformRTMPUrl None customUrl =
     (if truthy_str customUrl then the customUrl else ''rtmp://a.rtmp.youtube.com/live2'') \<and>
   fullRtmpUrl config = getPlatformRTMPUrl (platform config) (rtmpUrl config) @ ''/'' @ streamKey config"
  by (simp add: getPlatformRTMPUrl_def fullRtmpUrl_def youtube_url_def twitch_url_def
        facebook_url_def localhost_url_def)

text \<open>
  The claim as written sends every identifier outside the four names to the YouTube
  endpoint and \<open>custom\<close> to the profile's URL. An unknown identifier with a profile URL
  goes to that URL, \<open>custom\<close> without a URL goes to the local endpoint, and \<open>Twitch\<close>
  (capitalised) goes to the Twitch endpoint.
\<close>

theorem platform_url_counterexample:
  "getPlatformRTMPUrl (Some ''vimeo'') (Some ''rtmp://example.com/live'') = ''rtmp://example.com/live'' \<and>
   getPlatformRTMPUrl (Some ''vimeo'') (Some ''rtmp://example.com/live'') \<noteq> youtube_url \<and>
   getPlatformRTMPUrl (Some ''custom'') None = ''rtmp://localhost:1935/live'' \<and>
   getPlatformRTMPUrl (Some ''Twitch'') None = ''rtmp://live.twitch.tv/app''"
  by (simp add: getPlatformRTMPUrl_def toLowerCase_def toLowerChar_def youtube_url_def
        twitch_url_def localhost_url_def)

section \<open>Starting and stopping sessions\<close>

lemma kill_beyond: "beyond_sessions (kill h w) = beyond_sessions w"
  by (cases h) (simp_all add: kill_def beyond_sessions_def)

lemma kill_playlist: "playlist (kill h w) = playlist w"
  by (cases h) (simp_all add: kill_def)

lemma kill_activeStreams: "activeStreams (kill h w) = activeStreams w"
  by (cases h) (simp_all add: kill_def)

lemma fold_kill_beyond: "beyond_sessions (fold kill hs w) = beyond_sessions w"
  by (induction hs arbitrary: w) (simp_all add: kill_beyond)

lemma fold_kill_playlist: "playlist (fold kill hs w) = playlist w"
  by (induction hs arbitrary: w) (simp_all add: kill_playlist)

lemma stopStream_beyond: "beyond_sessions (snd (stopStream k w)) = beyond_sessions w"
proof -
  have a: "\<And>u xs. beyond_sessions (stopUptimeTracking (u\<lparr>activeStreams := xs\<rparr>)) = beyond_sessions u"
    by (simp add: beyond_sessions_def stopUptimeTracking_def)
  show ?thesis
    by (simp add: stopStream_def Let_def a kill_beyond fold_kill_beyond split: option.splits)
qed

lemma stopStream_playlist: "playlist (snd (stopStream k w)) = playlist w"
proof -
  have a: "\<And>u xs. playlist (stopUptimeTracking (u\<lparr>activeStreams := xs\<rparr>)) = playlist u"
    by (simp add: stopUptimeTracking_def)
  show ?thesis
    by (simp add: stopStream_def Let_def a kill_playlist fold_kill_playlist split: option.splits)
qed

lemma startUptimeTracking_beyond: "beyond_sessions (startUptimeTracking w) = beyond_sessions w"
  by (simp add: startUptimeTracking_def stopUptimeTracking_def beyond_sessions_def Let_def)

lemma startStream_try_beyond: "beyond_sessions (snd (startStream_try videoId config w)) = beyond_sessions w"
proof -
  define key where "key = ''video_'' @ string_of_int videoId"
  define w1 where "w1 = (if map_of (activeStreams w) key \<noteq> None then snd (stopStream (Some key) w) else w)"
  have b1: "beyond_sessions w1 = beyond_sessions w"
    by (simp add: w1_def stopStream_beyond)
  have mock: "\<And>xs t. beyond_sessions (startUptimeTracking (w1\<lparr>activeStreams := xs, streamStartTime := t\<rparr>)) = beyond_sessions w"
    using b1 by (simp add: startUptimeTracking_beyond) (simp add: beyond_sessions_def)
  have real: "\<And>ls args xs cs t.
      beyond_sessions (loadPlaylist (startUptimeTracking
         ((snd (spawn ls args w1))\<lparr>activeStreams := xs, streamConfigs := cs, streamStartTime := t\<rparr>)))
        = beyond_sessions w"
    using b1 by (simp add: loadPlaylist_def startUptimeTracking_def stopUptimeTracking_def spawn_def Let_def beyond_sessions_def)
  show ?thesis
    unfolding startStream_try_def Let_def key_def [symmetric] w1_def [symmetric]
    using b1 mock real
    by (simp add: split_beta split: option.splits runtime.splits)
qed

lemma snd_startStream: "snd (startStream videoId config w) = snd (startStream_try videoId config w)"
  by (simp add: startStream_def split: prod.splits sum.splits)

lemma startStream_beyond: "beyond_sessions (snd (startStream videoId config w)) = beyond_sessions w"
  by (simp add: snd_startStream startStream_try_beyond)

lemma startStream_try_playlist:
  "playlist (snd (startStream_try videoId config w)) = playlist w \<or>
   playlist (snd (startStream_try videoId config w)) = select_playlist (videos w)"
proof -
  define key where "key = ''video_'' @ string_of_int videoId"
  define w1 where "w1 = (if map_of (activeStreams w) key \<noteq> None then snd (stopStream (Some key) w) else w)"
  have p1: "playlist w1 = playlist w"
    by (simp add: w1_def stopStream_playlist)
  have v1: "videos w1 = videos w"
    using stopStream_beyond [of "Some key" w] by (simp add: w1_def beyond_sessions_def)
  have mock: "\<And>xs t. playlist (startUptimeTracking (w1\<lparr>activeStreams := xs, streamStartTime := t\<rparr>)) = playlist w"
    using p1 by (simp add: startUptimeTracking_def stopUptimeTracking_def Let_def)
  have real: "\<And>ls args xs cs t.
      playlist (loadPlaylist (startUptimeTracking
         ((snd (spawn ls args w1))\<lparr>activeStreams := xs, streamConfigs := cs, streamStartTime := t\<rparr>)))
        = select_playlist (videos w)"
    using v1 by (simp add: loadPlaylist_def startUptimeTracking_def stopUptimeTracking_def spawn_def Let_def)
  show ?thesis
    unfolding startStream_try_def Let_def key_def [symmetric] w1_def [symmetric]
    using p1 mock real
    by (simp add: split_beta split: option.splits runtime.splits)
qed

lemma stopUptimeTracking_idem: "stopUptimeTracking (stopUptimeTracking w) = stopUptimeTracking w"
  by (simp add: stopUptimeTracking_def)

lemma delete_absent: "map_of xs k = None \<Longrightarrow> AList.delete k xs = xs"
  by (induction xs) (auto simp: AList.delete_eq split: if_splits)

lemma map_of_delete_same: "map_of (AList.delete k xs) k = None"
  by (simp add: AList.delete_eq map_of_eq_None_iff image_iff)


lemma stopStream_unknown:
  "k \<noteq> [] \<Longrightarrow> map_of (activeStreams w) k = None \<Longrightarrow> stopStream (Some k) w = (True, stopUptimeTracking w)"
  by (simp add: stopStream_def Let_def delete_absent)

lemma stopAllStreams_empty:
  assumes "activeStreams w = []"
  shows "stopAllStreams w = (True, stopUptimeTracking w)"
proof -
  have e: "w\<lparr>activeStreams := []\<rparr> = w"
    using assms [symmetric] by simp
  show ?thesis
    by (simp add: stopAllStreams_def stopStream_def assms e)
qed

lemma stopUptimeTracking_noop:
  "uptimeInterval w = None \<Longrightarrow> streamStartTime w = None \<Longrightarrow> stopUptimeTracking w = w"
  by (simp add: stopUptimeTracking_def)

lemma stopStream_twice:
  "stopStream key (snd (stopStream key w)) = (True, snd (stopStream key w))"
proof (cases "truthy_str key")
  case True
  then obtain k where k: "key = Some k" "k \<noteq> []" by (cases key) auto
  define w' where "w' = (case map_of (activeStreams w) k of None \<Rightarrow> w | Some h \<Rightarrow> kill h w)"
  have a: "activeStreams w' = activeStreams w"
    by (simp add: w'_def kill_activeStreams split: option.splits)
  have first: "snd (stopStream key w) = stopUptimeTracking (w'\<lparr>activeStreams := AList.delete k (activeStreams w)\<rparr>)"
    using k by (simp add: stopStream_def Let_def w'_def a [unfolded w'_def])
  show ?thesis
    unfolding first using k
    by (simp add: stopStream_def Let_def stopUptimeTracking_def map_of_delete_same AList.delete_idem)
next
  case False
  then show ?thesis
    by (simp add: stopStream_def stopUptimeTracking_def)
qed

text \<open>
  Claim C8, as amended. \<open>stopStream\<close> and \<open>stopAllStreams\<close> always report success, and a
  second identical call changes nothing the first has not changed. Stopping a session
  that is not in the registry, or stopping all on an empty registry, sends no signal and
  leaves everything as it was except that uptime tracking is cancelled; when no tracking
  was running either, the engine is exactly as before.
\<close>

theorem stop_is_idempotent:
  "fst (stopStream key w) = True \<and> fst (stopAllStreams w) = True \<and>
   stopStream key (snd (stopStream key w)) = (True, snd (stopStream key w)) \<and>
   stopAllStreams (snd (stopAllStreams w)) = (True, snd (stopAllStreams w)) \<and>
   (k \<noteq> [] \<and> map_of (activeStreams w) k = None \<longrightarrow>
      stopStream (Some k) w = (True, stopUptimeTracking w)) \<and>
   (activeStreams w = [] \<longrightarrow> stopAllStreams w = (True, stopUptimeTracking w)) \<and>
   (activeStreams w = [] \<and> uptimeInterval w = None \<and> streamStartTime w = None \<longrightarrow>
      stopAllStreams w = (True, w))"
proof -
  have ok: "fst (stopStream key w) = True" "fst (stopAllStreams w) = True"
    by (simp_all add: stopAllStreams_def stopStream_def Let_def)
  have twice: "stopAllStreams (snd (stopAllStreams w)) = (True, snd (stopAllStreams w))"
    unfolding stopAllStreams_def by (rule stopStream_twice)
  show ?thesis
    using ok twice stopStream_twice [of key w] stopStream_unknown [of k w]
      stopAllStreams_empty [of w] stopUptimeTracking_noop [of w]
    by auto
qed


theorem stop_is_idempotent_witness:
  "''video_9'' \<noteq> [] \<and> map_of (activeStreams example_world) ''video_9'' = None \<and>
   activeStreams example_world = [] \<and> uptimeInterval example_world = None \<and>
   streamStartTime example_world = None \<and>
   stopStream (Some ''video_9'') example_world = (True, stopUptimeTracking example_world) \<and>
   stopAllStreams example_world = (True, example_world) \<and>
   stopStream (Some ''video_9'') (snd (stopStream (Some ''video_9'') example_world))
     = (True, snd (stopStream (Some ''video_9'') example_world))"
proof -
  have h: "''video_9'' \<noteq> [] \<and> map_of (activeStreams example_world) ''video_9'' = None \<and>
           activeStreams example_world = [] \<and> uptimeInterval example_world = None \<and>
           streamStartTime example_world = None"
    by (simp add: example_world_def constructor_def)
  show ?thesis
    using stop_is_idempotent [of "Some ''video_9''" example_world "''video_9''"] h by blast
qed

text \<open>
  The claim as written (stop-all on an empty registry leaves the engine state unchanged)
  fails when the registry is empty while the uptime interval is still installed. That
  state is reached when a looped session ends and no profile is active: the close listener
  removes the entry, the advance starts nothing, and nothing stops the interval.
\<close>

theorem stop_all_on_empty_registry_counterexample:
  "let w = run [SetLoopEnabled True, StartStream 1 example_config, ProcessClose 1 (Some 0)]
             example_world_no_profile
   in activeStreams w = [] \<and> uptimeInterval w = Some 1 \<and>
      fst (stopAllStreams w) = True \<and>
      uptimeInterval (snd (stopAllStreams w)) = None \<and>
      engine_state (snd (stopAllStreams w)) \<noteq> engine_state w"
  by (simp add: eval_defs)

section \<open>Failed starts\<close>

lemma spawn_lookup:
  "map_of (processes w) (next_pid w) = None \<Longrightarrow>
   map_of (processes (snd (spawn ls args w))) (next_pid w) = Some \<lparr>proc_listeners = ls, proc_args = args\<rparr>"
  by (simp add: spawn_def map_of_append map_add_def)

lemma kill_processes: "processes (kill h w) = processes w"
  by (cases h) (simp_all add: kill_def)

lemma fold_kill_processes: "processes (fold kill hs w) = processes w"
  by (induction hs arbitrary: w) (simp_all add: kill_processes)

lemma kill_next_pid: "next_pid (kill h w) = next_pid w"
  by (cases h) (simp_all add: kill_def)

lemma fold_kill_next_pid: "next_pid (fold kill hs w) = next_pid w"
  by (induction hs arbitrary: w) (simp_all add: kill_next_pid)

lemma stopStream_processes: "processes (snd (stopStream k w)) = processes w"
  by (simp add: stopStream_def Let_def stopUptimeTracking_def kill_processes fold_kill_processes
        split: option.splits)

lemma stopStream_next_pid: "next_pid (snd (stopStream k w)) = next_pid w"
  by (simp add: stopStream_def Let_def stopUptimeTracking_def kill_next_pid fold_kill_next_pid
        split: option.splits)











section \<open>Multi-destination sessions\<close>

lemma streamToMultiplePlatforms_registers:
  assumes "select_video videoId (videos w) = Some v" "runtime w = SpawnWorks"
    "map_of (processes w) (next_pid w) = None"
  shows "fst (streamToMultiplePlatforms videoId platforms w) = True \<and>
         map_of (processes (snd (streamToMultiplePlatforms videoId platforms w))) (next_pid w)
           = Some \<lparr>proc_listeners = MultiListeners (''multistream_'' @ string_of_int videoId),
                   proc_args = multi_args (upload_path v) platforms\<rparr> \<and>
         map_of (activeStreams (snd (streamToMultiplePlatforms videoId platforms w)))
             (''multistream_'' @ string_of_int videoId) = Some (ChildProcess (next_pid w))"
proof -
  define key where "key = ''multistream_'' @ string_of_int videoId"
  define w1 where "w1 = (if map_of (activeStreams w) key \<noteq> None then snd (stopStream (Some key) w) else w)"
  have r1: "runtime w1 = SpawnWorks"
    using assms(2) stopStream_beyond [of "Some key" w] by (simp add: w1_def beyond_sessions_def)
  have p1: "processes w1 = processes w" "next_pid w1 = next_pid w"
    by (simp_all add: w1_def stopStream_processes stopStream_next_pid)
  have tr: "streamToMultiplePlatforms_try videoId platforms w =
        (Inr True, (snd (spawn (MultiListeners key) (multi_args (upload_path v) platforms) w1))
           \<lparr>activeStreams := AList.update key (ChildProcess (next_pid w))
               (activeStreams (snd (spawn (MultiListeners key) (multi_args (upload_path v) platforms) w1)))\<rparr>)"
    unfolding streamToMultiplePlatforms_try_def Let_def key_def [symmetric] w1_def [symmetric]
    using assms(1) r1 p1 by (simp add: split_beta spawn_def)
  have look: "map_of (processes (snd (spawn (MultiListeners key) (multi_args (upload_path v) platforms) w1))) (next_pid w)
     = Some \<lparr>proc_listeners = MultiListeners key, proc_args = multi_args (upload_path v) platforms\<rparr>"
    using spawn_lookup [of w1 "MultiListeners key" "multi_args (upload_path v) platforms"] assms(3) p1
    by simp
  show ?thesis
    unfolding key_def [symmetric]
    using look by (simp add: streamToMultiplePlatforms_def tr update_conv')
qed

text \<open>
  Claim C10. The \<open>close\<close> and \<open>error\<close> listeners of a multi-destination process only
  delete its registry entry: whatever the loop flag, no process is spawned, no status
  statement is sent, the status rows, the uptime interval and the start time stay as they
  are, and every other registry entry is kept. \<open>streamToMultiplePlatforms\<close> registers
  these listeners under the key \<open>multistream_<id>\<close>.
\<close>

theorem multi_listeners_only_delete_entry:
  "(map_of (processes w) pid = Some p \<and> proc_listeners p = MultiListeners key \<longrightarrow>
      emit_close pid code w = w\<lparr>activeStreams := AList.delete key (activeStreams w)\<rparr> \<and>
      emit_error pid message w = w\<lparr>activeStreams := AList.delete key (activeStreams w)\<rparr> \<and>
      processes (emit_close pid code w) = processes w \<and>
      status_log (emit_close pid code w) = status_log w \<and>
      stream_status (emit_close pid code w) = stream_status w \<and>
      uptimeInterval (emit_close pid code w) = uptimeInterval w \<and>
      streamStartTime (emit_close pid code w) = streamStartTime w \<and>
      map_of (activeStreams (emit_close pid code w)) = (map_of (activeStreams w))(key := None)) \<and>
   (select_video videoId (videos w0) = Some v \<and> runtime w0 = SpawnWorks \<and>
    map_of (processes w0) (next_pid w0) = None \<longrightarrow>
      fst (streamToMultiplePlatforms videoId platforms w0) = True \<and>
      map_of (processes (snd (streamToMultiplePlatforms videoId platforms w0))) (next_pid w0)
        = Some \<lparr>proc_listeners = MultiListeners (''multistream_'' @ string_of_int videoId),
                proc_args = multi_args (upload_path v) platforms\<rparr>)"
proof -
  have a: "map_of (processes w) pid = Some p \<and> proc_listeners p = MultiListeners key \<longrightarrow>
      emit_close pid code w = w\<lparr>activeStreams := AList.delete key (activeStreams w)\<rparr> \<and>
      emit_error pid message w = w\<lparr>activeStreams := AList.delete key (activeStreams w)\<rparr>"
    by (simp add: emit_close_def emit_error_def multi_close_handler_def multi_error_handler_def)
  have b: "map_of (AList.delete key (activeStreams w)) = (map_of (activeStreams w))(key := None)"
    by (rule delete_conv')
  show ?thesis
    using a b streamToMultiplePlatforms_registers [of videoId w0 v platforms]
    by simp
qed

theorem multi_listeners_only_delete_entry_witness:
  "map_of (processes example_multi_world) 1
     = Some \<lparr>proc_listeners = MultiListeners ''multistream_1'',
             proc_args = multi_args ''uploads/a.mp4''
               [\<lparr>dest_url = ''rtmp://live.twitch.tv/app'', dest_key = ''k1''\<rparr>]\<rparr> \<and>
   loopEnabled example_multi_world \<and>
   activeStreams example_multi_world = [(''multistream_1'', ChildProcess 1)] \<and>
   emit_close 1 (Some 0) example_multi_world = example_multi_world\<lparr>activeStreams := []\<rparr> \<and>
   emit_error 1 ''ENOENT'' example_multi_world = example_multi_world\<lparr>activeStreams := []\<rparr> \<and>
   processes (emit_close 1 (Some 0) example_multi_world) = processes example_multi_world \<and>
   status_log (emit_close 1 (Some 0) example_multi_world) = [] \<and>
   select_video 1 (videos example_world) = Some item_a \<and> runtime example_world = SpawnWorks \<and>
   map_of (processes example_world) (next_pid example_world) = None \<and>
   fst (streamToMultiplePlatforms 1 [] example_world) = True"
proof -
  have h: "map_of (processes example_multi_world) 1
     = Some \<lparr>proc_listeners = MultiListeners ''multistream_1'',
             proc_args = multi_args ''uploads/a.mp4''
               [\<lparr>dest_url = ''rtmp://live.twitch.tv/app'', dest_key = ''k1''\<rparr>]\<rparr>"
    "loopEnabled example_multi_world"
    "activeStreams example_multi_world = [(''multistream_1'', ChildProcess 1)]"
    "status_log example_multi_world = []"
    by (simp_all add: eval_defs)
  have h0: "select_video 1 (videos example_world) = Some item_a" "runtime example_world = SpawnWorks"
    "map_of (processes example_world) (next_pid example_world) = None"
    by (simp_all add: example_world_def constructor_def select_video_def item_a_def)
  have d: "AList.delete ''multistream_1'' (activeStreams example_multi_world) = []"
    by (simp add: h(3))
  show ?thesis
    using multi_listeners_only_delete_entry
            [of example_multi_world 1
               "\<lparr>proc_listeners = MultiListeners ''multistream_1'',
                 proc_args = multi_args ''uploads/a.mp4''
                   [\<lparr>dest_url = ''rtmp://live.twitch.tv/app'', dest_key = ''k1''\<rparr>]\<rparr>"
               "''multistream_1''" "Some 0" "''ENOENT''" 1 example_world item_a "[]"]
      h h0 d
    by simp
qed


section \<open>The status store\<close>

lemma assign_column_id: "assign_column c v r = Some r' \<Longrightarrow> status_id r' = status_id r"
  by (auto simp: assign_column_def Let_def split: if_splits jsval.splits)

lemma assign_columns_id: "assign_columns as r = Some r' \<Longrightarrow> status_id r' = status_id r"
proof (induction as arbitrary: r)
  case Nil
  then show ?case by simp
next
  case (Cons a as)
  obtain c v where a: "a = (c, v)" by (cases a)
  from Cons.prems a obtain r1 where r1: "assign_column c v r = Some r1" "assign_columns as r1 = Some r'"
    by (auto split: option.splits)
  then show ?case
    using Cons.IH [of r1] assign_column_id [of c v r r1] by simp
qed

lemma apply_assignments_id: "status_id (apply_assignments as r) = status_id r"
  by (auto simp: apply_assignments_def assign_columns_id split: option.splits)

lemma latest_by_map:
  assumes "\<And>r. key (h r) = key r"
  shows "latest_by key (map h rows) = map_option h (latest_by key rows)"
  by (induction rows) (auto simp: assms split: option.splits)

lemma latest_by_None: "latest_by key rows = None \<longleftrightarrow> rows = []"
  by (cases rows) (auto split: option.splits)

lemma latest_status_update_rows:
  "latest_status (update_rows f as rows) = map_option (apply_assignments as) (latest_status rows)"
proof -
  let ?h = "\<lambda>r. if row_selected f rows r then apply_assignments as r else r"
  have key: "\<And>r. status_id (?h r) = status_id r"
    by (simp add: apply_assignments_id)
  have "latest_by status_id (map ?h rows) = map_option ?h (latest_by status_id rows)"
    using key by (rule latest_by_map)
  moreover have "map_option ?h (latest_by status_id rows)
                 = map_option (apply_assignments as) (latest_by status_id rows)"
    by (cases f; cases "latest_by status_id rows") (simp_all add: row_selected_def latest_status_def)
  ultimately show ?thesis
    by (simp add: update_rows_def latest_status_def)
qed

section \<open>The reconciler tick\<close>

lemma tick_statement_ok:
  "statement_ok [(''uptime'', JStr u), (''viewer_count'', JNum n)]"
  by (simp add: statement_ok_def assign_column_def toLowerCase_def toLowerChar_def blank_status_row_def)

lemma tick_assignments:
  "apply_assignments [(''uptime'', JStr u), (''viewer_count'', JNum n)] r
     = r\<lparr>uptime := Some u, viewer_count := Some n\<rparr>"
  by (simp add: apply_assignments_def assign_column_def toLowerCase_def toLowerChar_def)

lemma uptime_tick_unfold:
  "uptime_tick rnd w =
     (case streamStartTime w of
        None \<Rightarrow> w
      | Some t0 \<Rightarrow>
          if activeStreams w \<noteq> [] then
            (case latest_status (stream_status w) of
               None \<Rightarrow> w
             | Some s \<Rightarrow>
                 if status s = ''live'' then
                   w\<lparr>stream_status :=
                        update_rows LatestRow
                          [(''uptime'', JStr (formatUptime (int (clock w) - int t0))),
                           (''viewer_count'', JNum (synthetic_viewers rnd))] (stream_status w),
                      status_log := status_log w @
                        [(LatestRow,
                          [(''uptime'', JStr (formatUptime (int (clock w) - int t0))),
                           (''viewer_count'', JNum (synthetic_viewers rnd))], True)]\<rparr>
                 else w)
          else w)"
  by (simp add: uptime_tick_def exec_update_def tick_statement_ok Let_def split: option.splits)

lemma synthetic_viewers_bounds:
  "0 \<le> synthetic_viewers rnd" "0 \<le> rnd \<Longrightarrow> rnd < 100 \<Longrightarrow> synthetic_viewers rnd = 50 + (rnd - 50)"
  "0 \<le> rnd \<Longrightarrow> rnd < 100 \<Longrightarrow> synthetic_viewers rnd \<le> 99"
  by (simp_all add: synthetic_viewers_def Let_def)

lemma formatUptime_elapsed:
  assumes "t0 \<le> now"
  shows "formatUptime (int now - int t0) =
           padStart2 (string_of_nat ((now - t0) div 1000 div 3600)) @ '':''
           @ two_digits ((now - t0) div 1000 div 60 mod 60) @ '':''
           @ two_digits ((now - t0) div 1000 mod 60)"
proof -
  have "int now - int t0 = int (now - t0)" using assms by simp
  then show ?thesis by (simp only: formatUptime_of_nat)
qed
lemma formatUptime_example: "formatUptime 3725000 = ''01:02:05''"
proof -
  have "formatUptime (int 3725000) =
          padStart2 (string_of_nat (3725000 div 1000 div 3600)) @ '':''
          @ two_digits (3725000 div 1000 div 60 mod 60) @ '':''
          @ two_digits (3725000 div 1000 mod 60)"
    by (rule formatUptime_of_nat)
  then show ?thesis
    by (simp add: padStart2_two_digits two_digits_def digit_char_def)
qed

text \<open>
  The interval callback taken by itself, on any state. When it sends a status statement,
  the latest status row is \<open>live\<close>, the registry is not empty and the start time is set;
  the statement writes, to the latest row, the uptime \<open>formatUptime (now - start)\<close> and
  the viewer count \<open>max 0 (50 + (rnd - 50))\<close>. For a start time not after the clock the
  uptime is \<open>HH:MM:SS\<close>: hours padded to at least two digits (exactly two below 100),
  minutes and seconds two digits each and below 60. The viewer count is never negative,
  and for \<open>rnd\<close> in \<open>0..99\<close> it is the baseline 50 plus a jitter in \<open>-50..49\<close>.
\<close>


lemma uptime_tick_write:
  "(status_log (uptime_tick rnd w) \<noteq> status_log w \<longrightarrow>
      (\<exists>s t0. latest_status (stream_status w) = Some s \<and> status s = ''live'' \<and>
         activeStreams w \<noteq> [] \<and> streamStartTime w = Some t0 \<and>
         status_log (uptime_tick rnd w) = status_log w @
           [(LatestRow,
             [(''uptime'', JStr (formatUptime (int (clock w) - int t0))),
              (''viewer_count'', JNum (synthetic_viewers rnd))], True)] \<and>
         latest_status (stream_status (uptime_tick rnd w))
           = Some (s\<lparr>uptime := Some (formatUptime (int (clock w) - int t0)),
                      viewer_count := Some (synthetic_viewers rnd)\<rparr>))) \<and>
   (start \<le> now \<longrightarrow>
      formatUptime (int now - int start) =
        padStart2 (string_of_nat ((now - start) div 1000 div 3600)) @ '':''
        @ two_digits ((now - start) div 1000 div 60 mod 60) @ '':''
        @ two_digits ((now - start) div 1000 mod 60) \<and>
      (now - start) div 1000 div 60 mod 60 < 60 \<and> (now - start) div 1000 mod 60 < 60) \<and>
   2 \<le> length (padStart2 (string_of_nat hours)) \<and>
   (hours < 100 \<longrightarrow> padStart2 (string_of_nat hours) = two_digits hours) \<and>
   0 \<le> synthetic_viewers rnd \<and>
   (0 \<le> rnd \<and> rnd < 100 \<longrightarrow> synthetic_viewers rnd = 50 + (rnd - 50) \<and> synthetic_viewers rnd \<le> 99)"
proof -
  have wr: "status_log (uptime_tick rnd w) \<noteq> status_log w \<longrightarrow>
      (\<exists>s t0. latest_status (stream_status w) = Some s \<and> status s = ''live'' \<and>
         activeStreams w \<noteq> [] \<and> streamStartTime w = Some t0 \<and>
         status_log (uptime_tick rnd w) = status_log w @
           [(LatestRow,
             [(''uptime'', JStr (formatUptime (int (clock w) - int t0))),
              (''viewer_count'', JNum (synthetic_viewers rnd))], True)] \<and>
         latest_status (stream_status (uptime_tick rnd w))
           = Some (s\<lparr>uptime := Some (formatUptime (int (clock w) - int t0)),
                      viewer_count := Some (synthetic_viewers rnd)\<rparr>))"
    by (auto simp: uptime_tick_unfold latest_status_update_rows tick_assignments
             split: option.splits if_splits)
  have fm: "start \<le> now \<longrightarrow>
      formatUptime (int now - int start) =
        padStart2 (string_of_nat ((now - start) div 1000 div 3600)) @ '':''
        @ two_digits ((now - start) div 1000 div 60 mod 60) @ '':''
        @ two_digits ((now - start) div 1000 mod 60) \<and>
      (now - start) div 1000 div 60 mod 60 < 60 \<and> (now - start) div 1000 mod 60 < 60"
    using formatUptime_elapsed [of start now] by simp
  have hh: "2 \<le> length (padStart2 (string_of_nat hours)) \<and>
   (hours < 100 \<longrightarrow> padStart2 (string_of_nat hours) = two_digits hours)"
    by (simp add: length_padStart2 padStart2_two_digits)
  have vw: "0 \<le> synthetic_viewers rnd \<and>
   (0 \<le> rnd \<and> rnd < 100 \<longrightarrow> synthetic_viewers rnd = 50 + (rnd - 50) \<and> synthetic_viewers rnd \<le> 99)"
    using synthetic_viewers_bounds [of rnd] by simp
  from wr fm hh vw show ?thesis by blast
qed

text \<open>
  \<open>startUptimeTracking\<close> sets the start time and then calls \<open>stopUptimeTracking\<close>, which
  resets it; no other method sets it. So in every state the engine reaches from its
  constructor the start time is unset and the callback returns without writing.
\<close>

lemma stopStream_start_time: "streamStartTime (snd (stopStream k w)) = None"
  by (simp add: stopStream_def Let_def stopUptimeTracking_def)

lemma startUptimeTracking_start_time: "streamStartTime (startUptimeTracking w) = None"
  by (simp add: startUptimeTracking_def stopUptimeTracking_def Let_def)

lemma exec_update_start_time: "streamStartTime (snd (exec_update f as w)) = streamStartTime w"
  by (simp add: exec_update_def)

lemma startStream_try_start_time:
  "streamStartTime w = None \<Longrightarrow> streamStartTime (snd (startStream_try videoId config w)) = None"
proof -
  assume n: "streamStartTime w = None"
  define key where "key = ''video_'' @ string_of_int videoId"
  define w1 where "w1 = (if map_of (activeStreams w) key \<noteq> None then snd (stopStream (Some key) w) else w)"
  have s1: "streamStartTime w1 = None"
    using n by (simp add: w1_def stopStream_start_time)
  show ?thesis
    unfolding startStream_try_def Let_def key_def [symmetric] w1_def [symmetric]
    using n s1
    by (simp add: split_beta startUptimeTracking_start_time loadPlaylist_def split: option.splits runtime.splits)
qed

lemma streamToMultiplePlatforms_start_time:
  "streamStartTime w = None \<Longrightarrow> streamStartTime (snd (streamToMultiplePlatforms videoId ps w)) = None"
proof -
  assume n: "streamStartTime w = None"
  define key where "key = ''multistream_'' @ string_of_int videoId"
  define w1 where "w1 = (if map_of (activeStreams w) key \<noteq> None then snd (stopStream (Some key) w) else w)"
  have s1: "streamStartTime w1 = None"
    using n by (simp add: w1_def stopStream_start_time)
  have t: "streamStartTime (snd (streamToMultiplePlatforms_try videoId ps w)) = None"
    unfolding streamToMultiplePlatforms_try_def Let_def key_def [symmetric] w1_def [symmetric]
    using n s1
    by (simp add: split_beta spawn_def split: option.splits runtime.splits)
  have "snd (streamToMultiplePlatforms videoId ps w) = snd (streamToMultiplePlatforms_try videoId ps w)"
    by (simp add: streamToMultiplePlatforms_def split: prod.splits sum.splits)
  with t show ?thesis by simp
qed

lemma playNextVideo_start_time:
  "streamStartTime w = None \<Longrightarrow> streamStartTime (playNextVideo w) = None"
  by (simp add: playNextVideo_def Let_def exec_update_start_time snd_startStream
        startStream_try_start_time split: option.splits)

lemma close_handler_start_time:
  "streamStartTime w = None \<Longrightarrow> streamStartTime (close_handler key code w) = None"
proof -
  assume n: "streamStartTime w = None"
  have a: "streamStartTime (playNextVideo (w\<lparr>activeStreams := AList.delete key (activeStreams w)\<rparr>)) = None"
    by (rule playNextVideo_start_time) (simp add: n)
  show ?thesis
    using a by (simp add: close_handler_def Let_def updateStreamStatus_def exec_update_start_time
                  stopUptimeTracking_def)
qed

lemma error_handler_start_time: "streamStartTime (error_handler key msg w) = None"
  by (simp add: error_handler_def Let_def updateStreamStatus_def exec_update_start_time
        stopUptimeTracking_def)

lemma emit_close_start_time:
  "streamStartTime w = None \<Longrightarrow> streamStartTime (emit_close pid code w) = None"
  by (simp add: emit_close_def close_handler_start_time multi_close_handler_def
        split: option.splits listeners.splits)

lemma emit_error_start_time:
  "streamStartTime w = None \<Longrightarrow> streamStartTime (emit_error pid msg w) = None"
  by (simp add: emit_error_def error_handler_start_time multi_error_handler_def
        split: option.splits listeners.splits)

lemma perform_start_time:
  "streamStartTime w = None \<Longrightarrow> streamStartTime (perform op w) = None"
proof (cases op)
  case (StartStream videoId config)
  assume "streamStartTime w = None"
  then show ?thesis by (simp add: StartStream snd_startStream startStream_try_start_time)
next
  case (StopStream k)
  then show ?thesis by (simp add: stopStream_start_time)
next
  case StopAllStreams
  then show ?thesis by (simp add: stopAllStreams_def stopStream_start_time)
next
  case (SetLoopEnabled b)
  assume "streamStartTime w = None"
  then show ?thesis by (simp add: SetLoopEnabled setLoopEnabled_def)
next
  case LoadPlaylist
  assume "streamStartTime w = None"
  then show ?thesis by (simp add: LoadPlaylist loadPlaylist_def)
next
  case PlayNextVideo
  assume "streamStartTime w = None"
  then show ?thesis by (simp add: PlayNextVideo playNextVideo_start_time)
next
  case (StreamToMultiplePlatforms videoId ps)
  assume "streamStartTime w = None"
  then show ?thesis by (simp add: StreamToMultiplePlatforms streamToMultiplePlatforms_start_time)
next
  case StartUptimeTracking
  then show ?thesis by (simp add: startUptimeTracking_start_time)
next
  case StopUptimeTracking
  then show ?thesis by (simp add: stopUptimeTracking_def)
next
  case (UpdateStreamStatus st v ad)
  assume "streamStartTime w = None"
  then show ?thesis by (simp add: UpdateStreamStatus updateStreamStatus_def exec_update_start_time)
next
  case (ProcessClose pid code)
  assume "streamStartTime w = None"
  then show ?thesis by (simp add: ProcessClose emit_close_start_time)
next
  case (ProcessError pid msg)
  assume "streamStartTime w = None"
  then show ?thesis by (simp add: ProcessError emit_error_start_time)
next
  case (IntervalFires rnd)
  assume "streamStartTime w = None"
  then show ?thesis by (simp add: IntervalFires interval_fires_def uptime_tick_def)
qed

lemma run_start_time: "streamStartTime w = None \<Longrightarrow> streamStartTime (run ops w) = None"
  unfolding run_def by (induction ops arbitrary: w) (simp_all add: perform_start_time)

lemma interval_never_writes_after_run:
  "interval_fires rnd (run ops (constructor vs cs ss fs rt now)) = run ops (constructor vs cs ss fs rt now)"
proof -
  have "streamStartTime (run ops (constructor vs cs ss fs rt now)) = None"
    by (rule run_start_time) (simp add: constructor_def)
  then show ?thesis
    by (simp add: interval_fires_def uptime_tick_def)
qed

text \<open>
  Claim C9, evaluated where it fails. Item 1 was started with \<open>startStream\<close>, its session
  is in the registry, the interval is installed, the latest status row is \<open>live\<close> with
  uptime \<open>00:01:00\<close>, and the clock is more than an hour past the start. The interval
  fires, but \<open>startUptimeTracking\<close> has left the start time unset, so the callback sends
  no statement: neither the elapsed time nor a viewer count is written and the row keeps
  its old uptime.
\<close>

theorem interval_tick_writes_nothing:
  "latest_status (stream_status example_streaming_world) = Some live_row \<and>
   status live_row = ''live'' \<and> uptime live_row = Some ''00:01:00'' \<and>
   activeStreams example_streaming_world = [(''video_1'', ChildProcess 1)] \<and>
   uptimeInterval example_streaming_world = Some 1 \<and>
   clock example_streaming_world = 3726000 \<and>
   streamStartTime example_streaming_world = None \<and>
   interval_fires 73 example_streaming_world = example_streaming_world \<and>
   status_log (interval_fires 73 example_streaming_world) = [] \<and>
   stream_status (interval_fires 73 example_streaming_world) = [live_row]"
  by (simp add: eval_defs)



section \<open>The loop flag and the process listeners\<close>

lemma exec_update_loopEnabled: "loopEnabled (snd (exec_update f as w)) = loopEnabled w"
  by (simp add: exec_update_def)

lemma startStream_loopEnabled: "loopEnabled (snd (startStream videoId config w)) = loopEnabled w"
  using startStream_beyond [of videoId config w] by (simp add: beyond_sessions_def)

lemma startStream_stream_status: "stream_status (snd (startStream videoId config w)) = stream_status w"
  using startStream_beyond [of videoId config w] by (simp add: beyond_sessions_def)

lemma stopStream_loopEnabled: "loopEnabled (snd (stopStream k w)) = loopEnabled w"
  using stopStream_beyond [of k w] by (simp add: beyond_sessions_def)

lemma streamToMultiplePlatforms_loopEnabled:
  "loopEnabled (snd (streamToMultiplePlatforms videoId ps w)) = loopEnabled w"
proof -
  define key where "key = ''multistream_'' @ string_of_int videoId"
  define w1 where "w1 = (if map_of (activeStreams w) key \<noteq> None then snd (stopStream (Some key) w) else w)"
  have s1: "loopEnabled w1 = loopEnabled w"
    by (simp add: w1_def stopStream_loopEnabled)
  have t: "loopEnabled (snd (streamToMultiplePlatforms_try videoId ps w)) = loopEnabled w"
    unfolding streamToMultiplePlatforms_try_def Let_def key_def [symmetric] w1_def [symmetric]
    using s1
    by (simp add: split_beta spawn_def split: option.splits runtime.splits)
  have "snd (streamToMultiplePlatforms videoId ps w) = snd (streamToMultiplePlatforms_try videoId ps w)"
    by (simp add: streamToMultiplePlatforms_def split: prod.splits sum.splits)
  with t show ?thesis by simp
qed

lemma playNextVideo_loopEnabled: "loopEnabled (playNextVideo w) = loopEnabled w"
  by (simp add: playNextVideo_def Let_def exec_update_loopEnabled startStream_loopEnabled
        split: option.splits)

lemma updateStreamStatus_loopEnabled: "loopEnabled (updateStreamStatus st v ad w) = loopEnabled w"
  by (simp add: updateStreamStatus_def exec_update_loopEnabled)

lemma close_handler_loopEnabled: "loopEnabled (close_handler key code w) = loopEnabled w"
  by (simp add: close_handler_def Let_def playNextVideo_loopEnabled updateStreamStatus_loopEnabled
        stopUptimeTracking_def)

lemma error_handler_loopEnabled: "loopEnabled (error_handler key msg w) = loopEnabled w"
  by (simp add: error_handler_def Let_def updateStreamStatus_loopEnabled stopUptimeTracking_def)

lemma emit_close_loopEnabled: "loopEnabled (emit_close pid code w) = loopEnabled w"
  by (simp add: emit_close_def close_handler_loopEnabled multi_close_handler_def
        split: option.splits listeners.splits)

lemma emit_error_loopEnabled: "loopEnabled (emit_error pid msg w) = loopEnabled w"
  by (simp add: emit_error_def error_handler_loopEnabled multi_error_handler_def
        split: option.splits listeners.splits)

lemma interval_fires_loopEnabled: "loopEnabled (interval_fires rnd w) = loopEnabled w"
  by (simp add: interval_fires_def uptime_tick_def Let_def exec_update_loopEnabled split: option.splits)

lemma perform_loopEnabled:
  "loopEnabled (perform op w) = (case op of SetLoopEnabled b \<Rightarrow> b | _ \<Rightarrow> loopEnabled w)"
  by (cases op)
     (simp_all add: startStream_loopEnabled stopStream_loopEnabled stopAllStreams_def
        setLoopEnabled_def loadPlaylist_def playNextVideo_loopEnabled
        streamToMultiplePlatforms_loopEnabled startUptimeTracking_def stopUptimeTracking_def Let_def
        updateStreamStatus_loopEnabled emit_close_loopEnabled emit_error_loopEnabled
        interval_fires_loopEnabled)

lemma run_loopEnabled:
  "list_all (\<lambda>op. case op of SetLoopEnabled b \<Rightarrow> False | _ \<Rightarrow> True) ops \<Longrightarrow>
   loopEnabled (run ops w) = loopEnabled w"
  unfolding run_def
  by (induction ops arbitrary: w) (auto simp: perform_loopEnabled split: operation.splits)

text \<open>The statements of the two listeners name columns the table does not have.\<close>

lemma close_statement_rejected:
  "\<not> statement_ok (updateData ''offline'' JNull
        [(''viewerCount'', JNum 0), (''uptime'', JStr ''00:00:00''), (''loopPlaylist'', JBool False)] now)"
  by (simp add: statement_ok_def updateData_def spread_def js_get_def js_or_def assign_column_def
        toLowerCase_def toLowerChar_def blank_status_row_def)

lemma error_statement_rejected:
  "\<not> statement_ok (updateData ''error'' JNull
        [(''viewerCount'', JNum 0), (''uptime'', JStr ''00:00:00''), (''loopPlaylist'', JBool False),
         (''errorMessage'', JStr message)] now)"
  by (simp add: statement_ok_def updateData_def spread_def js_get_def js_or_def assign_column_def
        toLowerCase_def toLowerChar_def blank_status_row_def)

lemma close_statement_keys:
  "map fst (updateData ''offline'' JNull
        [(''viewerCount'', JNum 0), (''uptime'', JStr ''00:00:00''), (''loopPlaylist'', JBool False)] now)
   = [''status'', ''current_video_id'', ''started_at'', ''viewer_count'', ''uptime'', ''loop_playlist'',
      ''viewerCount'', ''loopPlaylist'']"
  by (simp add: updateData_def spread_def js_get_def js_or_def)

lemma error_statement_keys:
  "map fst (updateData ''error'' JNull
        [(''viewerCount'', JNum 0), (''uptime'', JStr ''00:00:00''), (''loopPlaylist'', JBool False),
         (''errorMessage'', JStr message)] now)
   = [''status'', ''current_video_id'', ''started_at'', ''viewer_count'', ''uptime'', ''loop_playlist'',
      ''viewerCount'', ''loopPlaylist'', ''errorMessage'']"
  by (simp add: updateData_def spread_def js_get_def js_or_def)

lemma exec_update_rejected:
  "\<not> statement_ok as \<Longrightarrow> exec_update f as w = (False, w\<lparr>status_log := status_log w @ [(f, as, False)]\<rparr>)"
  by (simp add: exec_update_def)

lemma close_handler_without_loop:
  "\<not> loopEnabled w \<Longrightarrow>
   close_handler key code w =
     w\<lparr>activeStreams := AList.delete key (activeStreams w), uptimeInterval := None,
       streamStartTime := None,
       status_log := status_log w @
         [(LatestRow,
           updateData ''offline'' JNull
             [(''viewerCount'', JNum 0), (''uptime'', JStr ''00:00:00''),
              (''loopPlaylist'', JBool False)] (clock w), False)]\<rparr>"
  by (simp add: close_handler_def Let_def updateStreamStatus_def stopUptimeTracking_def
        exec_update_rejected [OF close_statement_rejected])

lemma close_handler_with_loop:
  "loopEnabled w \<Longrightarrow>
   close_handler key code w = playNextVideo (w\<lparr>activeStreams := AList.delete key (activeStreams w)\<rparr>)"
  by (simp add: close_handler_def Let_def)

lemma error_handler_unfold:
  "error_handler key message w =
     w\<lparr>activeStreams := AList.delete key (activeStreams w), uptimeInterval := None,
       streamStartTime := None,
       status_log := status_log w @
         [(LatestRow,
           updateData ''error'' JNull
             [(''viewerCount'', JNum 0), (''uptime'', JStr ''00:00:00''),
              (''loopPlaylist'', JBool False), (''errorMessage'', JStr message)] (clock w), False)]\<rparr>"
  by (simp add: error_handler_def Let_def updateStreamStatus_def stopUptimeTracking_def
        exec_update_rejected [OF error_statement_rejected])

lemma current_video_statement_ok: "statement_ok [(''current_video_id'', JNum n)]"
  by (simp add: statement_ok_def assign_column_def toLowerCase_def toLowerChar_def blank_status_row_def)

lemma current_video_assignment:
  "apply_assignments [(''current_video_id'', JNum n)] r = r\<lparr>current_video_id := Some n\<rparr>"
  by (simp add: apply_assignments_def assign_column_def toLowerCase_def toLowerChar_def)

lemma exec_current_video:
  "exec_update AllRows [(''current_video_id'', JNum n)] w =
     (True, w\<lparr>stream_status := map (\<lambda>r. r\<lparr>current_video_id := Some n\<rparr>) (stream_status w),
              status_log := status_log w @ [(AllRows, [(''current_video_id'', JNum n)], True)]\<rparr>)"
  by (simp add: exec_update_def current_video_statement_ok update_rows_def row_selected_def
        current_video_assignment)

lemma playNextVideo_loop_playlist:
  "map loop_playlist (stream_status (playNextVideo w)) = map loop_playlist (stream_status w)"
  by (simp add: playNextVideo_def Let_def exec_current_video startStream_stream_status o_def
        split: option.splits)

lemma emit_close_loop_playlist:
  "map loop_playlist (stream_status (emit_close pid code w)) = map loop_playlist (stream_status w)"
proof -
  have c: "\<And>key. map loop_playlist (stream_status (close_handler key code w)) = map loop_playlist (stream_status w)"
  proof -
    fix key
    show "map loop_playlist (stream_status (close_handler key code w)) = map loop_playlist (stream_status w)"
    proof (cases "loopEnabled w")
      case True
      then show ?thesis
        by (simp add: close_handler_with_loop playNextVideo_loop_playlist)
    next
      case False
      then show ?thesis
        by (simp add: close_handler_without_loop)
    qed
  qed
  show ?thesis
    by (simp add: emit_close_def c multi_close_handler_def split: option.splits listeners.splits)
qed

lemma emit_error_loop_playlist:
  "map loop_playlist (stream_status (emit_error pid message w)) = map loop_playlist (stream_status w)"
  by (simp add: emit_error_def error_handler_unfold multi_error_handler_def
        split: option.splits listeners.splits)

text \<open>
  Claim C3. The constructor leaves the loop flag off; \<open>setLoopEnabled b\<close> sets it to
  \<open>b\<close>; every other method and every event (stop-all included) leaves it as it is, and
  so does any sequence of them. A process exit and a process error also leave the
  \<open>loop_playlist\<close> column of every status row as it is: the advance only assigns
  \<open>current_video_id\<close>, and the status statement of the two listeners is rejected by the
  store.
\<close>

theorem loop_flag_only_set_explicitly:
  "loopEnabled (constructor vs cs ss fs rt now) = False \<and>
   loopEnabled (perform (SetLoopEnabled b) w) = b \<and>
   ((\<forall>b. op \<noteq> SetLoopEnabled b) \<longrightarrow> loopEnabled (perform op w) = loopEnabled w) \<and>
   (list_all (\<lambda>op. case op of SetLoopEnabled b \<Rightarrow> False | _ \<Rightarrow> True) ops \<longrightarrow>
      loopEnabled (run ops w) = loopEnabled w) \<and>
   loopEnabled (emit_close pid code w) = loopEnabled w \<and>
   loopEnabled (emit_error pid message w) = loopEnabled w \<and>
   map loop_playlist (stream_status (emit_close pid code w)) = map loop_playlist (stream_status w) \<and>
   map loop_playlist (stream_status (emit_error pid message w)) = map loop_playlist (stream_status w)"
proof -
  have a: "(\<forall>b. op \<noteq> SetLoopEnabled b) \<longrightarrow> loopEnabled (perform op w) = loopEnabled w"
    using perform_loopEnabled [of op w] by (cases op) auto
  have b: "loopEnabled (perform (SetLoopEnabled b) w) = b"
    by (simp add: setLoopEnabled_def)
  have c: "loopEnabled (constructor vs cs ss fs rt now) = False"
    by (simp add: constructor_def)
  show ?thesis
    using a b c run_loopEnabled [of ops w]
    by (simp add: emit_close_loopEnabled emit_error_loopEnabled emit_close_loop_playlist
          emit_error_loop_playlist)
qed

theorem loop_flag_only_set_explicitly_witness:
  "(\<forall>b. ProcessError 1 ''spawn ffmpeg ENOENT'' \<noteq> SetLoopEnabled b) \<and>
   loopEnabled example_loop_world \<and>
   map loop_playlist (stream_status example_loop_world) = [Some True] \<and>
   loopEnabled (perform (ProcessError 1 ''spawn ffmpeg ENOENT'') example_loop_world) \<and>
   map loop_playlist (stream_status (emit_error 1 ''spawn ffmpeg ENOENT'' example_loop_world)) = [Some True] \<and>
   map loop_playlist (stream_status (emit_close 1 (Some 0) example_loop_world)) = [Some True] \<and>
   list_all (\<lambda>op. case op of SetLoopEnabled b \<Rightarrow> False | _ \<Rightarrow> True)
     [ProcessClose 1 (Some 0), StopAllStreams] \<and>
   loopEnabled (run [ProcessClose 1 (Some 0), StopAllStreams] example_loop_world)"
proof -
  have h: "loopEnabled example_loop_world"
    "map loop_playlist (stream_status example_loop_world) = [Some True]"
    by (simp_all add: eval_defs)
  show ?thesis
    using loop_flag_only_set_explicitly
            [of "[item_a, item_b]" "[active_profile]" "[live_row]" "[]" SpawnWorks 0 True
               example_loop_world "ProcessError 1 ''spawn ffmpeg ENOENT''"
               "[ProcessClose 1 (Some 0), StopAllStreams]" 1 "Some 0" "''spawn ffmpeg ENOENT''"]
      h
    by simp
qed

text \<open>
  Called with no extra data, \<open>updateStreamStatus\<close> sends a statement the store accepts,
  and that statement sets \<open>loop_playlist\<close> to \<open>false\<close>.
\<close>

lemma updateStreamStatus_plain:
  "updateStreamStatus ''offline'' JNull [] w =
     w\<lparr>stream_status :=
         update_rows LatestRow
           [(''status'', JStr ''offline''), (''current_video_id'', JNull), (''started_at'', JNull),
            (''viewer_count'', JNum 0), (''uptime'', JStr ''00:00:00''),
            (''loop_playlist'', JBool False)] (stream_status w),
       status_log := status_log w @
         [(LatestRow,
           [(''status'', JStr ''offline''), (''current_video_id'', JNull), (''started_at'', JNull),
            (''viewer_count'', JNum 0), (''uptime'', JStr ''00:00:00''),
            (''loop_playlist'', JBool False)], True)]\<rparr>"
  by (simp add: updateStreamStatus_def updateData_def spread_def js_get_def js_or_def exec_update_def
        statement_ok_def assign_column_def toLowerCase_def toLowerChar_def blank_status_row_def)

text \<open>
  Claim C1, evaluated where it fails. Item 1 streams with loop mode off and the status row
  is \<open>live\<close>; the process exits with code 0. The listener removes the registry entry and
  stops uptime tracking, but the statement it sends names the columns \<open>viewerCount\<close> and
  \<open>loopPlaylist\<close>, the store rejects it, and the status row is still \<open>live\<close> with
  item 1 as current item.
\<close>

theorem close_without_loop_keeps_status_live:
  "let w = run [StartStream 1 example_config, ProcessClose 1 (Some 0)] example_world in
     \<not> loopEnabled w \<and> activeStreams w = [] \<and> uptimeInterval w = None \<and> streamStartTime w = None \<and>
     stream_status w = [live_row] \<and> status live_row = ''live'' \<and>
     current_video_id live_row = Some 1 \<and>
     status_log w =
       [(LatestRow,
         [(''status'', JStr ''offline''), (''current_video_id'', JNull), (''started_at'', JNull),
          (''viewer_count'', JNum 0), (''uptime'', JStr ''00:00:00''), (''loop_playlist'', JBool False),
          (''viewerCount'', JNum 0), (''loopPlaylist'', JBool False)],
         False)]"
  by (simp add: eval_defs)

text \<open>
  Claim C5, evaluated where it fails. Item 1 streams and the process emits \<open>error\<close>. The
  listener removes the registry entry, stops uptime tracking and starts no process, but
  its statement names \<open>viewerCount\<close>, \<open>loopPlaylist\<close> and \<open>errorMessage\<close>, the store
  rejects it, and the status row is still \<open>live\<close>: neither \<open>error\<close> nor the message
  is stored.
\<close>

theorem error_event_keeps_status_live:
  "let w = run [StartStream 1 example_config, ProcessError 1 ''spawn ffmpeg ENOENT''] example_world in
     activeStreams w = [] \<and> uptimeInterval w = None \<and> streamStartTime w = None \<and>
     map fst (processes w) = [1] \<and>
     stream_status w = [live_row] \<and> status live_row = ''live'' \<and>
     status_log w =
       [(LatestRow,
         [(''status'', JStr ''error''), (''current_video_id'', JNull), (''started_at'', JNull),
          (''viewer_count'', JNum 0), (''uptime'', JStr ''00:00:00''), (''loop_playlist'', JBool False),
          (''viewerCount'', JNum 0), (''loopPlaylist'', JBool False),
          (''errorMessage'', JStr ''spawn ffmpeg ENOENT'')],
         False)]"
  by (simp add: eval_defs)


section \<open>The playlist advance\<close>

lemma findIndex_ge: "- 1 \<le> findIndex p xs"
  by (induction xs) (auto simp: Let_def)

lemma findIndex_lt: "findIndex p xs < int (length xs)"
  by (induction xs) (auto simp: Let_def)

lemma findIndex_absent: "list_all (\<lambda>x. \<not> p x) xs \<Longrightarrow> findIndex p xs = - 1"
  by (induction xs) (auto simp: Let_def)

lemma findIndex_distinct:
  "distinct (map f xs) \<Longrightarrow> i < length xs \<Longrightarrow> findIndex (\<lambda>v. f v = f (xs ! i)) xs = int i"
proof (induction xs arbitrary: i)
  case Nil
  then show ?case by simp
next
  case (Cons x xs)
  show ?case
  proof (cases i)
    case 0
    then show ?thesis by simp
  next
    case (Suc j)
    with Cons.prems have j: "j < length xs" and d: "distinct (map f xs)" and nx: "f x \<notin> f ` set xs"
      by auto
    from j nx have "f x \<noteq> f (xs ! j)" by (metis imageI nth_mem)
    moreover have "findIndex (\<lambda>v. f v = f (xs ! j)) xs = int j"
      using Cons.IH [OF d j] .
    ultimately show ?thesis
      using Suc by (simp add: Let_def)
  qed
qed

lemma next_index_in_range:
  assumes "xs \<noteq> []"
  shows "0 \<le> js_rem (findIndex p xs + 1) (int (length xs))"
    and "js_rem (findIndex p xs + 1) (int (length xs)) < int (length xs)"
    and "js_rem (findIndex p xs + 1) (int (length xs)) = (findIndex p xs + 1) mod int (length xs)"
proof -
  have n: "0 < int (length xs)" using assms by simp
  have a: "0 \<le> findIndex p xs + 1" using findIndex_ge [of p xs] by simp
  show e: "js_rem (findIndex p xs + 1) (int (length xs)) = (findIndex p xs + 1) mod int (length xs)"
    using a n by (simp add: js_rem_nonneg)
  show "0 \<le> js_rem (findIndex p xs + 1) (int (length xs))"
    unfolding e using n by simp
  show "js_rem (findIndex p xs + 1) (int (length xs)) < int (length xs)"
    unfolding e using n by simp
qed

text \<open>One advance, when loop mode is on, the snapshot has items and a current item is persisted.\<close>

lemma playNextVideo_unfold:
  assumes "loopEnabled w" "playlist w \<noteq> []" "persisted_current w = Some c" "c \<noteq> 0"
  defines "idx \<equiv> (findIndex (\<lambda>v. video_id v = c) (playlist w) + 1) mod int (length (playlist w))"
  defines "w2 \<equiv> w\<lparr>currentVideoIndex := idx,
                   stream_status := map (\<lambda>r. r\<lparr>current_video_id := Some (video_id (playlist w ! nat idx))\<rparr>)
                                      (stream_status w),
                   status_log := status_log w @
                     [(AllRows, [(''current_video_id'', JNum (video_id (playlist w ! nat idx)))], True)]\<rparr>"
  shows "playNextVideo w =
           (case active_config (stream_configs w) of
              None \<Rightarrow> w2
            | Some sc \<Rightarrow> snd (startStream (video_id (playlist w ! nat idx)) (config_of_row sc) w2))"
proof -
  have r: "js_rem (findIndex (\<lambda>v. video_id v = c) (playlist w) + 1) (int (length (playlist w))) = idx"
    "0 \<le> idx" "idx < int (length (playlist w))"
    using next_index_in_range [OF assms(2), of "\<lambda>v. video_id v = c"] by (simp_all add: idx_def)
  have ix: "js_index (playlist w) idx = Some (playlist w ! nat idx)"
    using r by (simp add: js_index_def)
  show ?thesis
    using assms(1-4) r(1) ix
    by (simp add: playNextVideo_def Let_def exec_current_video w2_def split: option.splits)
qed

lemma persisted_current_after_assign:
  "rows \<noteq> [] \<Longrightarrow> latest_status (map (\<lambda>r. r\<lparr>current_video_id := Some n\<rparr>) rows) \<noteq> None \<and>
     (case latest_status (map (\<lambda>r. r\<lparr>current_video_id := Some n\<rparr>) rows) of
        None \<Rightarrow> None | Some r \<Rightarrow> current_video_id r) = Some n"
proof -
  assume ne: "rows \<noteq> []"
  have "latest_by status_id (map (\<lambda>r. r\<lparr>current_video_id := Some n\<rparr>) rows)
          = map_option (\<lambda>r. r\<lparr>current_video_id := Some n\<rparr>) (latest_by status_id rows)"
    by (rule latest_by_map) simp
  moreover obtain m where "latest_by status_id rows = Some m"
    using ne latest_by_None [of status_id rows] by (cases "latest_by status_id rows") auto
  ultimately show ?thesis
    by (simp add: latest_status_def)
qed

lemma playNextVideo_step:
  assumes "loopEnabled w" "playlist w \<noteq> []" "persisted_current w = Some c" "c \<noteq> 0"
    "stream_status w \<noteq> []"
  defines "idx \<equiv> (findIndex (\<lambda>v. video_id v = c) (playlist w) + 1) mod int (length (playlist w))"
  shows "persisted_current (playNextVideo w) = Some (video_id (playlist w ! nat idx))"
    and "currentVideoIndex (playNextVideo w) = idx"
    and "loopEnabled (playNextVideo w)"
    and "videos (playNextVideo w) = videos w"
    and "stream_configs (playNextVideo w) = stream_configs w"
    and "stream_status (playNextVideo w) \<noteq> []"
    and "playlist (playNextVideo w) = playlist w \<or> playlist (playNextVideo w) = select_playlist (videos w)"
    and "active_config (stream_configs w) = None \<Longrightarrow>
           processes (playNextVideo w) = processes w \<and> activeStreams (playNextVideo w) = activeStreams w
           \<and> signals (playNextVideo w) = signals w"
proof -
  define w2 where "w2 = w\<lparr>currentVideoIndex := idx,
                   stream_status := map (\<lambda>r. r\<lparr>current_video_id := Some (video_id (playlist w ! nat idx))\<rparr>)
                                      (stream_status w),
                   status_log := status_log w @
                     [(AllRows, [(''current_video_id'', JNum (video_id (playlist w ! nat idx)))], True)]\<rparr>"
  have u: "playNextVideo w =
           (case active_config (stream_configs w) of
              None \<Rightarrow> w2
            | Some sc \<Rightarrow> snd (startStream (video_id (playlist w ! nat idx)) (config_of_row sc) w2))"
    unfolding w2_def idx_def by (rule playNextVideo_unfold [OF assms(1-4)])
  have b: "beyond_sessions (playNextVideo w) = beyond_sessions w2"
    unfolding u by (simp add: startStream_beyond split: option.splits)
  have p2: "persisted_current w2 = Some (video_id (playlist w ! nat idx))"
    using persisted_current_after_assign [OF assms(5), of "video_id (playlist w ! nat idx)"]
    by (simp add: persisted_current_def w2_def)
  have same: "stream_status (playNextVideo w) = stream_status w2" "loopEnabled (playNextVideo w) = loopEnabled w2"
    "currentVideoIndex (playNextVideo w) = currentVideoIndex w2" "videos (playNextVideo w) = videos w2"
    "stream_configs (playNextVideo w) = stream_configs w2"
    using b by (simp_all add: beyond_sessions_def)
  show "persisted_current (playNextVideo w) = Some (video_id (playlist w ! nat idx))"
    using p2 same(1) by (simp add: persisted_current_def)
  show "currentVideoIndex (playNextVideo w) = idx"
    using same(3) by (simp add: w2_def)
  show "loopEnabled (playNextVideo w)"
    using same(2) assms(1) by (simp add: w2_def)
  show "videos (playNextVideo w) = videos w"
    using same(4) by (simp add: w2_def)
  show "stream_configs (playNextVideo w) = stream_configs w"
    using same(5) by (simp add: w2_def)
  show "stream_status (playNextVideo w) \<noteq> []"
    using same(1) assms(5) by (simp add: w2_def)
  show "playlist (playNextVideo w) = playlist w \<or> playlist (playNextVideo w) = select_playlist (videos w)"
  proof (cases "active_config (stream_configs w)")
    case None
    then show ?thesis by (simp add: u w2_def)
  next
    case (Some sc)
    have "playlist w2 = playlist w" "videos w2 = videos w" by (simp_all add: w2_def)
    then show ?thesis
      using startStream_try_playlist [of "video_id (playlist w ! nat idx)" "config_of_row sc" w2]
      by (simp add: u Some snd_startStream)
  qed
  show "active_config (stream_configs w) = None \<Longrightarrow>
           processes (playNextVideo w) = processes w \<and> activeStreams (playNextVideo w) = activeStreams w
           \<and> signals (playNextVideo w) = signals w"
    by (simp add: u w2_def)
qed

lemma advance_invariant:
  assumes P: "P \<noteq> []" "distinct (map video_id P)" "0 \<notin> video_id ` set P"
    and w: "loopEnabled w" "playlist w = P" "select_playlist (videos w) = P"
      "stream_status w \<noteq> []" "i < length P" "persisted_current w = Some (video_id (P ! i))"
  shows "loopEnabled (playNextVideo w) \<and> playlist (playNextVideo w) = P \<and>
         select_playlist (videos (playNextVideo w)) = P \<and> stream_status (playNextVideo w) \<noteq> [] \<and>
         persisted_current (playNextVideo w) = Some (video_id (P ! ((i + 1) mod length P)))"
proof -
  have c0: "video_id (P ! i) \<noteq> 0"
    using P(3) w(5) by (metis imageI nth_mem)
  have ne: "playlist w \<noteq> []" using P(1) w(2) by simp
  have fi: "findIndex (\<lambda>v. video_id v = video_id (P ! i)) P = int i"
    by (rule findIndex_distinct [OF P(2) w(5)])
  have idx: "(findIndex (\<lambda>v. video_id v = video_id (P ! i)) (playlist w) + 1) mod int (length (playlist w))
               = int ((i + 1) mod length P)"
    unfolding w(2) fi by (simp add: zmod_int add.commute)
  note st = playNextVideo_step [OF w(1) ne w(6) c0 w(4)]
  have idx': "nat ((findIndex (\<lambda>v. video_id v = video_id (P ! i)) (playlist w) + 1)
                     mod int (length (playlist w))) = (i + 1) mod length P"
    unfolding idx by simp
  have a: "persisted_current (playNextVideo w) = Some (video_id (P ! ((i + 1) mod length P)))"
    using st(1) unfolding idx' unfolding w(2) .
  have b: "playlist (playNextVideo w) = P"
    using st(7) w(2,3) by auto
  have c: "select_playlist (videos (playNextVideo w)) = P"
    using st(4) w(3) by simp
  show ?thesis
    using a b c st(3) st(6) by simp
qed

lemma advances_Suc: "advances (Suc k) w = playNextVideo (advances k w)"
  by (simp add: advances_def)

lemma advances_closed_form:
  assumes P: "P \<noteq> []" "distinct (map video_id P)" "0 \<notin> video_id ` set P"
    and w: "loopEnabled w" "playlist w = P" "select_playlist (videos w) = P"
      "stream_status w \<noteq> []" "i < length P" "persisted_current w = Some (video_id (P ! i))"
  shows "loopEnabled (advances k w) \<and> playlist (advances k w) = P \<and>
         select_playlist (videos (advances k w)) = P \<and> stream_status (advances k w) \<noteq> [] \<and>
         persisted_current (advances k w) = Some (video_id (P ! ((i + k) mod length P)))"
proof (induction k)
  case 0
  show ?case using w by (simp add: advances_def)
next
  case (Suc k)
  have lt: "(i + k) mod length P < length P"
    using P(1) by simp
  have "((i + k) mod length P + 1) mod length P = (i + Suc k) mod length P"
    by (simp add: mod_Suc_eq)
  with advance_invariant [OF P, of "advances k w" "(i + k) mod length P"] Suc.IH lt
  show ?case
    by (simp add: advances_Suc)
qed

lemma shift_mod_inj:
  fixes n :: nat
  shows "inj_on (\<lambda>k. (i + k) mod n) {1..n}"
proof (rule inj_onI)
  fix k k'
  assume k: "k \<in> {1..n}" and k': "k' \<in> {1..n}" and e: "(i + k) mod n = (i + k') mod n"
  show "k = k'"
  proof (rule ccontr)
    assume d: "k \<noteq> k'"
    have *: "\<And>a b. a \<in> {1..n} \<Longrightarrow> b \<in> {1..n} \<Longrightarrow> a < b \<Longrightarrow> (i + a) mod n = (i + b) mod n \<Longrightarrow> False"
    proof -
      fix a b
      assume a: "a \<in> {1..n}" and b: "b \<in> {1..n}" and ab: "a < b" and m: "(i + a) mod n = (i + b) mod n"
      have le: "i + a \<le> i + b" using ab by simp
      have "n dvd (i + b) - (i + a)"
        using m mod_eq_dvd_iff_nat [OF le, of n] by simp
      then have "n dvd b - a" by simp
      moreover have "0 < b - a" "b - a < n" using a b ab by auto
      ultimately show False
        using dvd_imp_le [of n "b - a"] by simp
    qed
    from d have "k < k' \<or> k' < k" by auto
    then show False
      using * [OF k k'] * [OF k' k] e by auto
  qed
qed

lemma shift_mod_image:
  fixes n :: nat
  assumes "0 < n"
  shows "(\<lambda>k. (i + k) mod n) ` {1..n} = {0..<n}"
proof (rule card_subset_eq)
  show "finite {0..<n}" by simp
  show "(\<lambda>k. (i + k) mod n) ` {1..n} \<subseteq> {0..<n}"
    using assms by auto
  show "card ((\<lambda>k. (i + k) mod n) ` {1..n}) = card {0..<n}"
    using card_image [OF shift_mod_inj [of i n]] by simp
qed

lemma ids_inj:
  assumes "distinct (map video_id P)"
  shows "inj_on (\<lambda>j. Some (video_id (P ! j))) {0..<length P}"
proof (rule inj_onI)
  fix a b
  assume a: "a \<in> {0..<length P}" and b: "b \<in> {0..<length P}"
    and e: "Some (video_id (P ! a)) = Some (video_id (P ! b))"
  then have "map video_id P ! a = map video_id P ! b" by simp
  moreover have "a < length (map video_id P)" "b < length (map video_id P)"
    using a b by simp_all
  ultimately show "a = b"
    using nth_eq_iff_index_eq [OF assms, of a b] by blast
qed

lemma ids_image: "(\<lambda>j. Some (video_id (P ! j))) ` {0..<length P} = Some ` video_id ` set P"
proof -
  have "set P = (\<lambda>j. P ! j) ` {0..<length P}"
    using nth_image [of "length P" P] by simp
  then show ?thesis
    by (simp add: image_image)
qed

lemma visits_once:
  assumes "P \<noteq> []" "distinct (map video_id P)"
  shows "distinct (map (\<lambda>k. Some (video_id (P ! ((i + k) mod length P)))) [1..<Suc (length P)])"
    and "set (map (\<lambda>k. Some (video_id (P ! ((i + k) mod length P)))) [1..<Suc (length P)])
           = Some ` video_id ` set P"
proof -
  let ?n = "length P"
  let ?f = "\<lambda>k. (i + k) mod ?n"
  let ?g = "\<lambda>j. Some (video_id (P ! j))"
  have n: "0 < ?n" using assms(1) by simp
  have s: "set [1..<Suc ?n] = {1..?n}" by auto
  have im: "?f ` {1..?n} = {0..<?n}" by (rule shift_mod_image [OF n])
  have "inj_on ?g (?f ` {1..?n})"
    unfolding im by (rule ids_inj [OF assms(2)])
  with shift_mod_inj [of i ?n] have "inj_on (?g \<circ> ?f) {1..?n}"
    by (rule comp_inj_on)
  then have "inj_on (\<lambda>k. Some (video_id (P ! ((i + k) mod length P)))) (set [1..<Suc ?n])"
    unfolding s o_def .
  then show "distinct (map (\<lambda>k. Some (video_id (P ! ((i + k) mod length P)))) [1..<Suc (length P)])"
    by (simp only: distinct_map distinct_upt simp_thms)
  have "set (map (\<lambda>k. ?g (?f k)) [1..<Suc ?n]) = ?g ` ?f ` {1..?n}"
    unfolding set_map s by (simp add: image_image)
  also have "\<dots> = Some ` video_id ` set P"
    unfolding im by (rule ids_image)
  finally show "set (map (\<lambda>k. Some (video_id (P ! ((i + k) mod length P)))) [1..<Suc (length P)])
           = Some ` video_id ` set P" .
qed

lemma playNextVideo_absent:
  assumes "loopEnabled w" "playlist w \<noteq> []" "stream_status w \<noteq> []"
    "persisted_current w = Some c" "c \<noteq> 0" "c \<notin> video_id ` set (playlist w)"
  shows "persisted_current (playNextVideo w) = Some (video_id (playlist w ! 0))"
    and "currentVideoIndex (playNextVideo w) = 0"
proof -
  have "list_all (\<lambda>v. \<not> video_id v = c) (playlist w)"
    using assms(6) by (auto simp: list_all_iff)
  then have fi: "findIndex (\<lambda>v. video_id v = c) (playlist w) = - 1"
    by (rule findIndex_absent)
  have idx: "(findIndex (\<lambda>v. video_id v = c) (playlist w) + 1) mod int (length (playlist w)) = 0"
    unfolding fi by simp
  note st = playNextVideo_step [OF assms(1,2,4,5,3)]
  show "persisted_current (playNextVideo w) = Some (video_id (playlist w ! 0))"
    using st(1) unfolding idx by simp
  show "currentVideoIndex (playNextVideo w) = 0"
    using st(2) unfolding idx .
qed

lemma playNextVideo_empty: "playlist w = [] \<Longrightarrow> playNextVideo w = w"
  by (simp add: playNextVideo_def)

lemma example_loop_world_fields:
  "loopEnabled example_loop_world"
  "playlist example_loop_world = [item_a, item_b]"
  "videos example_loop_world = [item_a, item_b]"
  "stream_configs example_loop_world = [active_profile]"
  "stream_status example_loop_world = [live_row\<lparr>loop_playlist := Some True\<rparr>]"
  "map fst (processes example_loop_world) = [1]"
  "activeStreams example_loop_world = [(''video_1'', ChildProcess 1)]"
  by (simp_all add: eval_defs)

lemma example_items:
  "[item_a, item_b] \<noteq> []" "distinct (map video_id [item_a, item_b])"
  "0 \<notin> video_id ` set [item_a, item_b]" "select_playlist [item_a, item_b] = [item_a, item_b]"
  "video_id ([item_a, item_b] ! 0) = 1" "video_id ([item_a, item_b] ! 1) = 2"
  "9 \<notin> video_id ` set [item_a, item_b]"
  by (simp_all add: item_a_def item_b_def select_playlist_def)

text \<open>
  Claim C2. Loop mode is on and the snapshot \<open>P\<close> has \<open>N > 0\<close> items with distinct ids
  (ids come from a \<open>SERIAL\<close> column, so none is 0), the snapshot is what the table
  currently holds, and the latest status row names the item at position \<open>i\<close>. Then one
  advance persists the item at position \<open>(i + 1) mod N\<close>, \<open>k\<close> advances persist the one
  at \<open>(i + k) mod N\<close>, \<open>N\<close> advances return to the starting item, and the \<open>N\<close>
  items persisted on the way are pairwise different and are all items of the snapshot.
  When the persisted item is not in the snapshot, the advance persists the item at
  position 0. With an empty snapshot the advance changes nothing. With no active profile
  the next item is persisted, no process is spawned and the registry is unchanged.
\<close>

theorem playlist_advance_cycle:
  "(P \<noteq> [] \<and> distinct (map video_id P) \<and> 0 \<notin> video_id ` set P \<and> loopEnabled w \<and>
    playlist w = P \<and> select_playlist (videos w) = P \<and> stream_status w \<noteq> [] \<and> i < length P \<and>
    persisted_current w = Some (video_id (P ! i)) \<longrightarrow>
      persisted_current (playNextVideo w) = Some (video_id (P ! ((i + 1) mod length P))) \<and>
      persisted_current (advances k w) = Some (video_id (P ! ((i + k) mod length P))) \<and>
      persisted_current (advances (length P) w) = persisted_current w \<and>
      distinct (map (\<lambda>k. persisted_current (advances k w)) [1..<Suc (length P)]) \<and>
      set (map (\<lambda>k. persisted_current (advances k w)) [1..<Suc (length P)]) = Some ` video_id ` set P) \<and>
   (loopEnabled w2 \<and> playlist w2 \<noteq> [] \<and> stream_status w2 \<noteq> [] \<and>
    persisted_current w2 = Some c \<and> c \<noteq> 0 \<and> c \<notin> video_id ` set (playlist w2) \<longrightarrow>
      persisted_current (playNextVideo w2) = Some (video_id (playlist w2 ! 0)) \<and>
      currentVideoIndex (playNextVideo w2) = 0) \<and>
   (playlist w3 = [] \<longrightarrow> playNextVideo w3 = w3) \<and>
   (loopEnabled w4 \<and> playlist w4 \<noteq> [] \<and> stream_status w4 \<noteq> [] \<and>
    persisted_current w4 = Some c4 \<and> c4 \<noteq> 0 \<and> active_config (stream_configs w4) = None \<longrightarrow>
      persisted_current (playNextVideo w4)
        = Some (video_id (playlist w4 ! nat ((findIndex (\<lambda>v. video_id v = c4) (playlist w4) + 1)
                                               mod int (length (playlist w4))))) \<and>
      processes (playNextVideo w4) = processes w4 \<and>
      activeStreams (playNextVideo w4) = activeStreams w4)"
proof -
  have cyc: "persisted_current (playNextVideo w) = Some (video_id (P ! ((i + 1) mod length P))) \<and>
      persisted_current (advances k w) = Some (video_id (P ! ((i + k) mod length P))) \<and>
      persisted_current (advances (length P) w) = persisted_current w \<and>
      distinct (map (\<lambda>k. persisted_current (advances k w)) [1..<Suc (length P)]) \<and>
      set (map (\<lambda>k. persisted_current (advances k w)) [1..<Suc (length P)]) = Some ` video_id ` set P"
    if h: "P \<noteq> []" "distinct (map video_id P)" "0 \<notin> video_id ` set P" "loopEnabled w"
      "playlist w = P" "select_playlist (videos w) = P" "stream_status w \<noteq> []" "i < length P"
      "persisted_current w = Some (video_id (P ! i))"
  proof -
    have form: "\<And>j. persisted_current (advances j w) = Some (video_id (P ! ((i + j) mod length P)))"
      using advances_closed_form [OF h] by simp
    have one: "persisted_current (playNextVideo w) = Some (video_id (P ! ((i + 1) mod length P)))"
      using advance_invariant [OF h] by simp
    have ret: "persisted_current (advances (length P) w) = persisted_current w"
      using h(8) by (simp add: form h(9))
    have m: "map (\<lambda>k. persisted_current (advances k w)) [1..<Suc (length P)]
               = map (\<lambda>k. Some (video_id (P ! ((i + k) mod length P)))) [1..<Suc (length P)]"
      by (simp only: form)
    show ?thesis
      using one form [of k] ret visits_once [OF h(1,2), of i] unfolding m by simp
  qed
  have ab: "persisted_current (playNextVideo w2) = Some (video_id (playlist w2 ! 0)) \<and>
      currentVideoIndex (playNextVideo w2) = 0"
    if "loopEnabled w2" "playlist w2 \<noteq> []" "stream_status w2 \<noteq> []"
      "persisted_current w2 = Some c" "c \<noteq> 0" "c \<notin> video_id ` set (playlist w2)"
    using playNextVideo_absent [OF that] by simp
  have np: "persisted_current (playNextVideo w4)
        = Some (video_id (playlist w4 ! nat ((findIndex (\<lambda>v. video_id v = c4) (playlist w4) + 1)
                                               mod int (length (playlist w4))))) \<and>
      processes (playNextVideo w4) = processes w4 \<and>
      activeStreams (playNextVideo w4) = activeStreams w4"
    if "loopEnabled w4" "playlist w4 \<noteq> []" "stream_status w4 \<noteq> []"
      "persisted_current w4 = Some c4" "c4 \<noteq> 0" "active_config (stream_configs w4) = None"
    using playNextVideo_step(1,8) [OF that(1,2,4,5,3)] that(6) by simp
  show ?thesis
    using cyc ab np playNextVideo_empty [of w3] by blast
qed

theorem playlist_advance_cycle_witness:
  "loopEnabled example_loop_world \<and> playlist example_loop_world = [item_a, item_b] \<and>
   persisted_current example_loop_world = Some 1 \<and>
   persisted_current (playNextVideo example_loop_world) = Some 2 \<and>
   persisted_current (advances 2 example_loop_world) = Some 1 \<and>
   persisted_current example_stale_world = Some 9 \<and>
   persisted_current (playNextVideo example_stale_world) = Some 1 \<and>
   playlist example_world = [] \<and> playNextVideo example_world = example_world \<and>
   active_config (stream_configs example_loop_world_no_profile) = None \<and>
   persisted_current (playNextVideo example_loop_world_no_profile) = Some 2 \<and>
   processes (playNextVideo example_loop_world_no_profile) = processes example_loop_world_no_profile \<and>
   activeStreams (playNextVideo example_loop_world_no_profile) = activeStreams example_loop_world_no_profile"
proof -
  note f = example_loop_world_fields
  have pc: "persisted_current example_loop_world = Some (video_id ([item_a, item_b] ! 0))"
    "persisted_current example_loop_world = Some 1"
    by (simp_all add: persisted_current_def latest_status_def f live_row_def item_a_def)
  have h1: "[item_a, item_b] \<noteq> [] \<and> distinct (map video_id [item_a, item_b]) \<and>
      0 \<notin> video_id ` set [item_a, item_b] \<and> loopEnabled example_loop_world \<and>
      playlist example_loop_world = [item_a, item_b] \<and>
      select_playlist (videos example_loop_world) = [item_a, item_b] \<and>
      stream_status example_loop_world \<noteq> [] \<and> 0 < length [item_a, item_b] \<and>
      persisted_current example_loop_world = Some (video_id ([item_a, item_b] ! 0))"
    using example_items pc by (simp add: f)
  have h2: "loopEnabled example_stale_world \<and> playlist example_stale_world \<noteq> [] \<and>
      stream_status example_stale_world \<noteq> [] \<and> persisted_current example_stale_world = Some 9 \<and>
      (9::int) \<noteq> 0 \<and> 9 \<notin> video_id ` set (playlist example_stale_world)"
    using example_items(7)
    by (simp add: example_stale_world_def f persisted_current_def latest_status_def live_row_def)
  have h3: "playlist example_world = []"
    by (simp add: example_world_def constructor_def)
  have h4: "loopEnabled example_loop_world_no_profile \<and> playlist example_loop_world_no_profile \<noteq> [] \<and>
      stream_status example_loop_world_no_profile \<noteq> [] \<and>
      persisted_current example_loop_world_no_profile = Some 1 \<and> (1::int) \<noteq> 0 \<and>
      active_config (stream_configs example_loop_world_no_profile) = None"
    by (simp add: example_loop_world_no_profile_def f persisted_current_def latest_status_def
          live_row_def active_config_def)
  have p4: "playlist example_loop_world_no_profile = [item_a, item_b]"
    "playlist example_stale_world = [item_a, item_b]"
    by (simp_all add: example_loop_world_no_profile_def example_stale_world_def f)
  have ix: "nat ((findIndex (\<lambda>v. video_id v = 1) [item_a, item_b] + 1) mod int (length [item_a, item_b])) = 1"
    by (simp add: item_a_def item_b_def)
  have m: "(0 + 1) mod length [item_a, item_b] = 1" "(0 + 2) mod length [item_a, item_b] = 0"
    by simp_all
  from playlist_advance_cycle
         [of "[item_a, item_b]" example_loop_world 0 2 example_stale_world 9 example_world
             example_loop_world_no_profile 1]
    h1 h2 h3 h4
  have c: "persisted_current (playNextVideo example_loop_world)
             = Some (video_id ([item_a, item_b] ! ((0 + 1) mod length [item_a, item_b])))"
    "persisted_current (advances 2 example_loop_world)
             = Some (video_id ([item_a, item_b] ! ((0 + 2) mod length [item_a, item_b])))"
    "persisted_current (playNextVideo example_stale_world) = Some (video_id (playlist example_stale_world ! 0))"
    "playNextVideo example_world = example_world"
    "persisted_current (playNextVideo example_loop_world_no_profile)
        = Some (video_id (playlist example_loop_world_no_profile !
             nat ((findIndex (\<lambda>v. video_id v = 1) (playlist example_loop_world_no_profile) + 1)
                   mod int (length (playlist example_loop_world_no_profile)))))"
    "processes (playNextVideo example_loop_world_no_profile) = processes example_loop_world_no_profile"
    "activeStreams (playNextVideo example_loop_world_no_profile) = activeStreams example_loop_world_no_profile"
    by blast+
  have c1: "persisted_current (playNextVideo example_loop_world) = Some 2"
    using c(1) unfolding m by (simp only: example_items)
  have c2: "persisted_current (advances 2 example_loop_world) = Some 1"
    using c(2) unfolding m by (simp only: example_items)
  have c3: "persisted_current (playNextVideo example_stale_world) = Some 1"
    using c(3) unfolding p4 by (simp only: example_items)
  have c5: "persisted_current (playNextVideo example_loop_world_no_profile) = Some 2"
    using c(5) unfolding p4 ix by (simp only: example_items)
  show ?thesis
    using h1 h2 h3 h4 pc(2) c1 c2 c3 c(4) c5 c(6) c(7) by simp
qed

end
